theory Spec2Isabelle
  imports Main "HOL-Library.Word" "HOL-Library.Char_ord" "HOL-Library.List_Lexorder"
begin

unbundle bit_operations_syntax

section \<open>Bytes, buffers and fixed-width integers\<close>

text \<open>
  A Go \<open>[]byte\<close> is a list of 8-bit words.  Go's \<open>int\<close> never overflows on a
  \<open>len\<close>, so \<open>len\<close> is an \<open>int\<close>; the conversions \<open>byte(n)\<close>, \<open>uint8(n)\<close>,
  \<open>uint32(n)\<close> and \<open>uint64(n)\<close> keep the low bits, which is what \<open>of_int\<close> into a
  word does.
\<close>

type_synonym byte = "8 word"
type_synonym bytes = "byte list"

definition len :: "'a list \<Rightarrow> int" where
  "len xs = int (length xs)"

definition uint8 :: "int \<Rightarrow> 8 word" where
  "uint8 n = of_int n"

definition uint32 :: "int \<Rightarrow> 32 word" where
  "uint32 n = of_int n"

definition uint64 :: "int \<Rightarrow> 64 word" where
  "uint64 n = of_int n"

text \<open>
  \<open>bytes.Buffer\<close>: the buffer is the list of bytes written so far, and \<open>Write\<close>
  appends to it.  It never reports an error.
\<close>

definition Write :: "bytes \<Rightarrow> bytes \<Rightarrow> bytes" where
  "Write buf p = buf @ p"

text \<open>
  \<open>binary.BigEndian.PutUint32\<close> and \<open>PutUint64\<close> of \<open>encoding/binary\<close>: byte \<open>i\<close>
  is the value shifted right and cut to eight bits, the most significant byte first.
\<close>

definition PutUint32 :: "32 word \<Rightarrow> bytes" where
  "PutUint32 v =
     [ucast (drop_bit 24 v), ucast (drop_bit 16 v), ucast (drop_bit 8 v), ucast v]"

definition PutUint64 :: "64 word \<Rightarrow> bytes" where
  "PutUint64 v =
     [ucast (drop_bit 56 v), ucast (drop_bit 48 v), ucast (drop_bit 40 v),
      ucast (drop_bit 32 v), ucast (drop_bit 24 v), ucast (drop_bit 16 v),
      ucast (drop_bit 8 v), ucast v]"

text \<open>
  \<open>binary.Write(&buf, binary.BigEndian, v)\<close> for the three fixed-size types the
  program passes: the value is laid out big-endian and written to the buffer.
\<close>

definition binary_Write_uint8 :: "bytes \<Rightarrow> 8 word \<Rightarrow> bytes" where
  "binary_Write_uint8 buf v = Write buf [v]"

definition binary_Write_uint32 :: "bytes \<Rightarrow> 32 word \<Rightarrow> bytes" where
  "binary_Write_uint32 buf v = Write buf (PutUint32 v)"

definition binary_Write_uint64 :: "bytes \<Rightarrow> 64 word \<Rightarrow> bytes" where
  "binary_Write_uint64 buf v = Write buf (PutUint64 v)"

text \<open>
  \<open>hex.EncodeToString\<close> of \<open>encoding/hex\<close>: every byte gives two characters of
  the table, the high nibble first.
\<close>

definition hextable :: string where
  "hextable = ''0123456789abcdef''"

definition EncodeToString :: "bytes \<Rightarrow> string" where
  "EncodeToString src =
     concat (map (\<lambda>v. [hextable ! unat (drop_bit 4 v), hextable ! unat (v AND 0x0f)]) src)"

section \<open>Entry\<close>

record Entry =
  ChainID :: bytes
  ExtIDs :: "bytes list"
  Data :: bytes

text \<open>
  \<open>Entry.MarshalBinary\<close>: the writes to the buffer in the order of the source; the
  \<open>for ... range e.ExtIDs\<close> loop is a left fold that carries the buffer.
\<close>

definition Entry_MarshalBinary :: "Entry \<Rightarrow> bytes" where
  "Entry_MarshalBinary e =
     (let buf = [];
          buf = Write buf [uint8 (len (ChainID e))];
          buf = Write buf (ChainID e);
          count = len (ExtIDs e);
          buf = binary_Write_uint8 buf (uint8 count);
          buf = foldl (\<lambda>buf bs. Write (binary_Write_uint32 buf (uint32 (len bs))) bs)
                  buf (ExtIDs e);
          buf = Write buf (Data e)
      in buf)"

text \<open>
  \<open>Entry.Hash\<close> and \<open>Entry.Hex\<close>.  SHA-256 is the standard library's
  \<open>crypto/sha256\<close>; it is the parameter \<open>sha256\<close>.
\<close>

definition Entry_Hash :: "(bytes \<Rightarrow> bytes) \<Rightarrow> Entry \<Rightarrow> string" where
  "Entry_Hash sha256 e = EncodeToString (sha256 (Write [] (Entry_MarshalBinary e)))"

definition Entry_Hex :: "Entry \<Rightarrow> string" where
  "Entry_Hex e = EncodeToString (Entry_MarshalBinary e)"

section \<open>Chain\<close>

text \<open>
  The \<open>*Entry\<close> pointer of a chain may be nil, so \<open>FirstEntry\<close> is an option.  The
  field \<open>ChainID\<close> of a chain is \<open>Chain_ChainID\<close> here, since the entry has the name.
\<close>

record Chain =
  Chain_ChainID :: bytes
  Name :: "bytes list"
  FirstEntry :: "Entry option"

text \<open>
  \<open>Chain.GenerateID\<close>.  The helper \<open>sha\<close> of the package is not part of the source
  at hand; it is the parameter \<open>sha\<close> (the specification takes it to be SHA-256).
  The two nested \<open>range\<close> loops append the digest of every name segment to \<open>b\<close>
  byte by byte.  The method assigns to \<open>c.ChainID\<close> through its pointer receiver,
  so the updated chain is returned beside the string.
\<close>

definition Chain_GenerateID :: "(bytes \<Rightarrow> bytes) \<Rightarrow> Chain \<Rightarrow> string \<times> Chain" where
  "Chain_GenerateID sha c =
     (let b = [];
          b = foldl (\<lambda>b v. foldl (\<lambda>b w. b @ [w]) b (sha v)) b (Name c);
          c = c\<lparr>Chain_ChainID := sha b\<rparr>
      in (EncodeToString (Chain_ChainID c), c))"

definition Chain_Hash :: "Chain \<Rightarrow> string" where
  "Chain_Hash c = ''abcdefg''"

definition Chain_MarshalBinary :: "Chain \<Rightarrow> bytes" where
  "Chain_MarshalBinary c =
     (let buf = [];
          buf = Write buf (Chain_ChainID c);
          count = len (Name c);
          buf = binary_Write_uint64 buf (uint64 count);
          buf = foldl (\<lambda>buf bs. Write (binary_Write_uint64 buf (uint64 (len bs))) bs)
                  buf (Name c)
      in buf)"

definition Chain_Hex :: "Chain \<Rightarrow> string" where
  "Chain_Hex c = EncodeToString (Chain_MarshalBinary c)"

section \<open>The layout in the words of the specification\<close>

text \<open>
  \<open>big_endian k n\<close> is the \<open>k\<close>-byte big-endian field holding \<open>n\<close>: the \<open>k\<close> low
  base-256 digits of \<open>n\<close>, the most significant first.
\<close>

fun big_endian :: "nat \<Rightarrow> nat \<Rightarrow> bytes" where
  "big_endian 0 n = []"
| "big_endian (Suc k) n = big_endian k (n div 256) @ [of_nat n]"

definition Entry_layout :: "Entry \<Rightarrow> bytes" where
  "Entry_layout e =
     big_endian 1 (length (ChainID e)) @ ChainID e @
     big_endian 1 (length (ExtIDs e)) @
     concat (map (\<lambda>x. big_endian 4 (length x) @ x) (ExtIDs e)) @
     Data e"

definition Chain_layout :: "Chain \<Rightarrow> bytes" where
  "Chain_layout c =
     Chain_ChainID c @ big_endian 8 (length (Name c)) @
     concat (map (\<lambda>x. big_endian 8 (length x) @ x) (Name c))"

text \<open>
  The inverse of the entry layout, as the specification describes it: read the
  one-byte length of the chain id and that many bytes, the one-byte count of the
  external ids, for each of them a 4-byte big-endian length and that many bytes,
  and take what remains as the data.  A buffer that ends too early gives \<open>None\<close>.
\<close>

definition from_big_endian :: "bytes \<Rightarrow> nat" where
  "from_big_endian bs = foldl (\<lambda>a b. a * 256 + unat b) 0 bs"

definition read_bytes :: "nat \<Rightarrow> bytes \<Rightarrow> (bytes \<times> bytes) option" where
  "read_bytes n bs = (if length bs < n then None else Some (take n bs, drop n bs))"

definition read_uint :: "nat \<Rightarrow> bytes \<Rightarrow> (nat \<times> bytes) option" where
  "read_uint k bs =
     (case read_bytes k bs of
        None \<Rightarrow> None
      | Some (f, rest) \<Rightarrow> Some (from_big_endian f, rest))"

fun read_ExtIDs :: "nat \<Rightarrow> bytes \<Rightarrow> (bytes list \<times> bytes) option" where
  "read_ExtIDs 0 bs = Some ([], bs)"
| "read_ExtIDs (Suc m) bs =
     (case read_uint 4 bs of
        None \<Rightarrow> None
      | Some (n, r) \<Rightarrow>
          (case read_bytes n r of
             None \<Rightarrow> None
           | Some (x, r') \<Rightarrow>
               (case read_ExtIDs m r' of
                  None \<Rightarrow> None
                | Some (xs, r'') \<Rightarrow> Some (x # xs, r''))))"

definition Entry_decode :: "bytes \<Rightarrow> Entry option" where
  "Entry_decode bs =
     (case read_uint 1 bs of
        None \<Rightarrow> None
      | Some (n, r1) \<Rightarrow>
          (case read_bytes n r1 of
             None \<Rightarrow> None
           | Some (cid, r2) \<Rightarrow>
               (case read_uint 1 r2 of
                  None \<Rightarrow> None
                | Some (m, r3) \<Rightarrow>
                    (case read_ExtIDs m r3 of
                       None \<Rightarrow> None
                     | Some (xs, r4) \<Rightarrow> Some \<lparr>ChainID = cid, ExtIDs = xs, Data = r4\<rparr>))))"

section \<open>Lowercase hexadecimal in the words of the specification\<close>

text \<open>
  The lowercase hex encoding of a byte sequence: every byte gives its two base-16
  digits, the high digit first, where the digits from ten to fifteen are the letters
  \<open>a\<close> to \<open>f\<close>.  \<open>hex_decode\<close> reads such a text back: it accepts the digits
  \<open>0\<close> to \<open>9\<close> and the lowercase letters \<open>a\<close> to \<open>f\<close> only, two for every byte.
\<close>

definition hex_digit :: "nat \<Rightarrow> char" where
  "hex_digit n = (if n < 10 then ''0123456789'' ! n else ''abcdef'' ! (n - 10))"

definition lowercase_hex :: "bytes \<Rightarrow> string" where
  "lowercase_hex bs =
     concat (map (\<lambda>b. [hex_digit (unat b div 16), hex_digit (unat b mod 16)]) bs)"

definition hex_value :: "char \<Rightarrow> nat option" where
  "hex_value c =
     (if CHR ''0'' \<le> c \<and> c \<le> CHR ''9'' then Some (of_char c - 48)
      else if CHR ''a'' \<le> c \<and> c \<le> CHR ''f'' then Some (of_char c - 87)
      else None)"

fun hex_decode :: "string \<Rightarrow> bytes option" where
  "hex_decode [] = Some []"
| "hex_decode [c] = None"
| "hex_decode (h # l # cs) =
     (case hex_value h of
        None \<Rightarrow> None
      | Some a \<Rightarrow>
          (case hex_value l of
             None \<Rightarrow> None
           | Some b \<Rightarrow>
               (case hex_decode cs of
                  None \<Rightarrow> None
                | Some bs \<Rightarrow> Some (of_nat (16 * a + b) # bs))))"


section \<open>JSON values\<close>

text \<open>
  The value a request carries in \<open>Params\<close> and \<open>ID\<close> is an \<open>interface{}\<close> filled by
  the JSON parser: nil, a bool, a float64, a string, a slice of such values or a map
  from strings to such values.  A float64 is kept as the text the encoder prints for
  it, and a map as the list of its members.  The same type gives the document that
  \<open>json.Marshal\<close> produces, read as a tree.
\<close>

datatype json =
    JNull
  | JBool bool
  | JNumber string
  | JString string
  | JArray "json list"
  | JObject "(string \<times> json) list"

type_synonym error = string

text \<open>
  \<open>json.Marshal\<close> on such a value: it rejects none of them, and it writes the
  members of a map in the order of their keys.
\<close>

fun Marshal_tree :: "json \<Rightarrow> json" where
  "Marshal_tree (JArray xs) = JArray (map Marshal_tree xs)"
| "Marshal_tree (JObject kvs) =
     JObject (sort_key fst (map (\<lambda>kv. (fst kv, Marshal_tree (snd kv))) kvs))"
| "Marshal_tree v = v"

definition Marshal :: "json \<Rightarrow> error + json" where
  "Marshal source = Inr (Marshal_tree source)"

text \<open>
  \<open>json.Unmarshal\<close> into a struct looks a key up among the fields: an exact match of
  the name first, otherwise the first field whose name equals the key when case is
  folded.  Under the folding the Kelvin sign (E2 84 AA in UTF-8) is a \<open>k\<close> and the
  long s (C5 BF) is an \<open>s\<close>.  The field names of this program are ASCII.
\<close>

definition caseMask :: byte where
  "caseMask = NOT 0x20"

definition asciiEqualFold :: "char \<Rightarrow> char \<Rightarrow> bool" where
  "asciiEqualFold sb tb =
     (sb = tb \<or>
      (let sbUpper = (of_char sb :: byte) AND caseMask
       in 0x41 \<le> sbUpper \<and> sbUpper \<le> 0x5A \<and> sbUpper = (of_char tb :: byte) AND caseMask))"

fun equalFold :: "string \<Rightarrow> string \<Rightarrow> bool" where
  "equalFold [] t = (t = [])"
| "equalFold (sb # s) t =
     (case t of
        [] \<Rightarrow> False
      | tb # t' \<Rightarrow>
          if (of_char tb :: nat) < 128 then asciiEqualFold sb tb \<and> equalFold s t'
          else if (sb = CHR ''s'' \<or> sb = CHR ''S'') \<and> take 2 t = [CHR 0xC5, CHR 0xBF]
            then equalFold s (drop 2 t)
          else if (sb = CHR ''k'' \<or> sb = CHR ''K'') \<and> take 3 t = [CHR 0xE2, CHR 0x84, CHR 0xAA]
            then equalFold s (drop 3 t)
          else False)"

definition lookup_field :: "(string \<times> 'd) list \<Rightarrow> string \<Rightarrow> 'd option" where
  "lookup_field flds key =
     (case find (\<lambda>f. fst f = key) flds of
        Some f \<Rightarrow> Some (snd f)
      | None \<Rightarrow>
          (case find (\<lambda>f. equalFold (fst f) key) flds of
             Some f \<Rightarrow> Some (snd f)
           | None \<Rightarrow> None))"

text \<open>
  The decoder keeps the first error it meets and goes on; \<open>Unmarshal\<close> returns that
  error at the end, with the destination filled as far as the document allowed.  A
  decoding step therefore maps the destination to the new destination and an optional
  error.  The handlers only test that error for nil, so the text of a type error,
  which in Go names the JSON value and the Go type, is one fixed string here.
\<close>

definition UnmarshalTypeError :: error where
  "UnmarshalTypeError = ''json: cannot unmarshal value into Go value''"

definition saveError :: "error option \<Rightarrow> error option \<Rightarrow> error option" where
  "saveError saved err = (case saved of None \<Rightarrow> err | Some e \<Rightarrow> Some e)"

text \<open>A string field: null leaves it as it is, a JSON string sets it, anything else
  is a type error.\<close>

definition Unmarshal_string :: "json \<Rightarrow> string \<Rightarrow> string \<times> error option" where
  "Unmarshal_string v dst =
     (case v of
        JNull \<Rightarrow> (dst, None)
      | JString s \<Rightarrow> (s, None)
      | _ \<Rightarrow> (dst, Some UnmarshalTypeError))"

text \<open>\<open>strconv.ParseUint(s, 10, 64)\<close>: decimal digits only, at least one, and a value
  below \<open>2 ^ 64\<close>.\<close>

definition digit_val :: "char \<Rightarrow> int" where
  "digit_val c = of_char c - of_char CHR ''0''"

definition ParseUint :: "string \<Rightarrow> 64 word option" where
  "ParseUint s =
     (if s \<noteq> [] \<and> list_all (\<lambda>c. CHR ''0'' \<le> c \<and> c \<le> CHR ''9'') s
         \<and> foldl (\<lambda>n c. n * 10 + digit_val c) 0 s < 2 ^ 64
      then Some (of_int (foldl (\<lambda>n c. n * 10 + digit_val c) 0 s))
      else None)"

text \<open>A uint64 field: null leaves it, a number must parse as an unsigned 64-bit
  integer, anything else is a type error.\<close>

definition Unmarshal_uint64 :: "json \<Rightarrow> 64 word \<Rightarrow> 64 word \<times> error option" where
  "Unmarshal_uint64 v dst =
     (case v of
        JNull \<Rightarrow> (dst, None)
      | JNumber lit \<Rightarrow>
          (case ParseUint lit of
             Some n \<Rightarrow> (n, None)
           | None \<Rightarrow> (dst, Some UnmarshalTypeError))
      | _ \<Rightarrow> (dst, Some UnmarshalTypeError))"

text \<open>
  A struct: null leaves it, an object is decoded member by member in the order of the
  document, a member whose key matches no field is skipped, and any other value is a
  type error.  \<open>flds\<close> gives for every field name the step that decodes a value into
  that field.
\<close>

definition Unmarshal_struct ::
  "(string \<times> (json \<Rightarrow> 'a \<Rightarrow> 'a \<times> error option)) list \<Rightarrow> json \<Rightarrow> 'a \<Rightarrow> 'a \<times> error option"
where
  "Unmarshal_struct flds v dst =
     (case v of
        JNull \<Rightarrow> (dst, None)
      | JObject kvs \<Rightarrow>
          foldl (\<lambda>(d, saved) (key, x).
                   case lookup_field flds key of
                     None \<Rightarrow> (d, saved)
                   | Some dec \<Rightarrow> (case dec x d of (d', err) \<Rightarrow> (d', saveError saved err)))
            (dst, None) kvs
      | _ \<Rightarrow> (dst, Some UnmarshalTypeError))"

text \<open>
  A slice: null empties it, an array decodes element \<open>i\<close> into the element the slice
  already has at \<open>i\<close>, or into a zero value beyond its length, and cuts the slice to
  the length of the array; any other value is a type error.
\<close>

fun Unmarshal_elems ::
  "(json \<Rightarrow> 'a \<Rightarrow> 'a \<times> error option) \<Rightarrow> 'a \<Rightarrow> json list \<Rightarrow> 'a list \<Rightarrow> 'a list \<times> error option"
where
  "Unmarshal_elems dec zero [] dst = ([], None)"
| "Unmarshal_elems dec zero (x # xs) dst =
     (case dec x (case dst of [] \<Rightarrow> zero | d # _ \<Rightarrow> d) of
        (d', err) \<Rightarrow>
          (case Unmarshal_elems dec zero xs (tl dst) of
             (ds, err') \<Rightarrow> (d' # ds, saveError err err')))"

definition Unmarshal_slice ::
  "(json \<Rightarrow> 'a \<Rightarrow> 'a \<times> error option) \<Rightarrow> 'a \<Rightarrow> json \<Rightarrow> 'a list \<Rightarrow> 'a list \<times> error option"
where
  "Unmarshal_slice dec zero v dst =
     (case v of
        JNull \<Rightarrow> ([], None)
      | JArray xs \<Rightarrow> Unmarshal_elems dec zero xs dst
      | _ \<Rightarrow> (dst, Some UnmarshalTypeError))"

text \<open>
  \<open>mapToObject\<close>: marshal the source and unmarshal the bytes into the destination.
  Go finds the decoder from the type of \<open>dst\<close>; here it is the argument \<open>unmarshal\<close>.
\<close>

definition mapToObject ::
  "(json \<Rightarrow> 'a \<Rightarrow> 'a \<times> error option) \<Rightarrow> json \<Rightarrow> 'a \<Rightarrow> 'a \<times> error option"
where
  "mapToObject unmarshal source dst =
     (case Marshal source of
        Inl err \<Rightarrow> (dst, Some err)
      | Inr b \<Rightarrow> unmarshal b dst)"


section \<open>Requests, responses and errors of the wallet API\<close>

text \<open>
  The request and response structs of package \<open>wsapi\<close> and the constructors of the
  JSON errors are declared outside the source at hand.  The requests have the fields
  the handlers read and the JSON names the specification lists for them; the errors
  are the four kinds of the specification's taxonomy.
\<close>

record addressRequest =
  Address :: string

record transactionRequest =
  tx_Name :: string

record transactionValueRequest =
  txv_Name :: string
  txv_Address :: string
  Amount :: "64 word"

record transactionAddressRequest =
  txa_Name :: string
  txa_Address :: string

record importAddress =
  imp_Secret :: string

record importRequest =
  Addresses :: "importAddress list"

definition new_addressRequest :: addressRequest where
  "new_addressRequest = \<lparr>Address = ''''\<rparr>"

definition new_transactionRequest :: transactionRequest where
  "new_transactionRequest = \<lparr>tx_Name = ''''\<rparr>"

definition new_transactionValueRequest :: transactionValueRequest where
  "new_transactionValueRequest = \<lparr>txv_Name = '''', txv_Address = '''', Amount = 0\<rparr>"

definition new_transactionAddressRequest :: transactionAddressRequest where
  "new_transactionAddressRequest = \<lparr>txa_Name = '''', txa_Address = ''''\<rparr>"

definition new_importAddress :: importAddress where
  "new_importAddress = \<lparr>imp_Secret = ''''\<rparr>"

definition new_importRequest :: importRequest where
  "new_importRequest = \<lparr>Addresses = []\<rparr>"

text \<open>The decoders of \<open>json.Unmarshal\<close> for these structs, field by field.\<close>

definition Unmarshal_addressRequest ::
  "json \<Rightarrow> addressRequest \<Rightarrow> addressRequest \<times> error option" where
  "Unmarshal_addressRequest =
     Unmarshal_struct
       [(''address'', \<lambda>v r. case Unmarshal_string v (Address r) of
                               (s, err) \<Rightarrow> (r\<lparr>Address := s\<rparr>, err))]"

definition Unmarshal_transactionRequest ::
  "json \<Rightarrow> transactionRequest \<Rightarrow> transactionRequest \<times> error option" where
  "Unmarshal_transactionRequest =
     Unmarshal_struct
       [(''name'', \<lambda>v r. case Unmarshal_string v (tx_Name r) of
                            (s, err) \<Rightarrow> (r\<lparr>tx_Name := s\<rparr>, err))]"

definition Unmarshal_transactionValueRequest ::
  "json \<Rightarrow> transactionValueRequest \<Rightarrow> transactionValueRequest \<times> error option" where
  "Unmarshal_transactionValueRequest =
     Unmarshal_struct
       [(''name'', \<lambda>v r. case Unmarshal_string v (txv_Name r) of
                            (s, err) \<Rightarrow> (r\<lparr>txv_Name := s\<rparr>, err)),
        (''address'', \<lambda>v r. case Unmarshal_string v (txv_Address r) of
                               (s, err) \<Rightarrow> (r\<lparr>txv_Address := s\<rparr>, err)),
        (''amount'', \<lambda>v r. case Unmarshal_uint64 v (Amount r) of
                              (n, err) \<Rightarrow> (r\<lparr>Amount := n\<rparr>, err))]"

definition Unmarshal_transactionAddressRequest ::
  "json \<Rightarrow> transactionAddressRequest \<Rightarrow> transactionAddressRequest \<times> error option" where
  "Unmarshal_transactionAddressRequest =
     Unmarshal_struct
       [(''name'', \<lambda>v r. case Unmarshal_string v (txa_Name r) of
                            (s, err) \<Rightarrow> (r\<lparr>txa_Name := s\<rparr>, err)),
        (''address'', \<lambda>v r. case Unmarshal_string v (txa_Address r) of
                               (s, err) \<Rightarrow> (r\<lparr>txa_Address := s\<rparr>, err))]"

definition Unmarshal_importAddress ::
  "json \<Rightarrow> importAddress \<Rightarrow> importAddress \<times> error option" where
  "Unmarshal_importAddress =
     Unmarshal_struct
       [(''secret'', \<lambda>v r. case Unmarshal_string v (imp_Secret r) of
                              (s, err) \<Rightarrow> (r\<lparr>imp_Secret := s\<rparr>, err))]"

definition Unmarshal_importRequest ::
  "json \<Rightarrow> importRequest \<Rightarrow> importRequest \<times> error option" where
  "Unmarshal_importRequest =
     Unmarshal_struct
       [(''addresses'',
         \<lambda>v r. case Unmarshal_slice Unmarshal_importAddress new_importAddress v (Addresses r) of
                  (xs, err) \<Rightarrow> (r\<lparr>Addresses := xs\<rparr>, err))]"

record addressResponse =
  Public :: string
  Secret :: string

text \<open>
  What a handler hands back as \<open>resp\<close>: an address, a list of addresses, the wallet
  backup, a plain string, or the composed transaction of the wallet.
\<close>

datatype 'tx response =
    AddressResponse addressResponse
  | MultiAddressResponse "addressResponse list"
  | WalletBackupResponse string "addressResponse list"
  | StringResponse string
  | TransactionResponse 'tx

datatype JSONError =
    InvalidRequestError
  | MethodNotFoundError
  | InvalidParamsError
  | CustomInternalError error

record JSON2Request =
  Method :: string
  Params :: json
  ID :: json

record 'tx JSON2Response =
  resp_ID :: json
  Result :: "'tx response option"
  Error :: "JSONError option"

definition NewJSON2Response :: "'tx JSON2Response" where
  "NewJSON2Response = \<lparr>resp_ID = JNull, Result = None, Error = None\<rparr>"

section \<open>The wallet and the services behind it\<close>

text \<open>
  The handlers drive a wallet, the address functions of package \<open>factom\<close> and the
  rate service; none of them is part of the source at hand, so they are the fields of
  an environment.  \<open>'w\<close> is the state of the wallet and of whatever else these calls
  can change; a call takes the state and returns its result with the new state.  A Go
  \<open>error\<close> result is \<open>Inl\<close> of a sum, or \<open>Some\<close> where the call returns nothing else.
  \<open>'ec\<close> and \<open>'fct\<close> are the entry-credit and factoid addresses, seen by the handlers
  through the two methods of \<open>addressResponder\<close>.
\<close>

datatype addressType = InvalidAddress | FactoidPub | FactoidSec | ECPub | ECSec

record addressResponder =
  PubString :: string
  SecString :: string

record ('w, 'ec, 'fct, 'tx) env =
  AddressStringType :: "string \<Rightarrow> addressType"
  factom_GetFactoidAddress :: "string \<Rightarrow> error + 'fct"
  factom_GetECAddress :: "string \<Rightarrow> error + 'ec"
  factom_GetRate :: "'w \<Rightarrow> (error + 64 word) \<times> 'w"
  ecResponder :: "'ec \<Rightarrow> addressResponder"
  fctResponder :: "'fct \<Rightarrow> addressResponder"
  GetECAddress :: "string \<Rightarrow> 'w \<Rightarrow> (error + 'ec) \<times> 'w"
  GetFCTAddress :: "string \<Rightarrow> 'w \<Rightarrow> (error + 'fct) \<times> 'w"
  GetAllAddresses :: "'w \<Rightarrow> (error + 'fct list \<times> 'ec list) \<times> 'w"
  GenerateFCTAddress :: "'w \<Rightarrow> (error + 'fct) \<times> 'w"
  GenerateECAddress :: "'w \<Rightarrow> (error + 'ec) \<times> 'w"
  PutFCTAddress :: "'fct \<Rightarrow> 'w \<Rightarrow> error option \<times> 'w"
  PutECAddress :: "'ec \<Rightarrow> 'w \<Rightarrow> error option \<times> 'w"
  GetSeed :: "'w \<Rightarrow> (error + string) \<times> 'w"
  NewTransaction :: "string \<Rightarrow> 'w \<Rightarrow> error option \<times> 'w"
  DeleteTransaction :: "string \<Rightarrow> 'w \<Rightarrow> error option \<times> 'w"
  AddInput :: "string \<Rightarrow> string \<Rightarrow> 64 word \<Rightarrow> 'w \<Rightarrow> error option \<times> 'w"
  AddOutput :: "string \<Rightarrow> string \<Rightarrow> 64 word \<Rightarrow> 'w \<Rightarrow> error option \<times> 'w"
  AddECOutput :: "string \<Rightarrow> string \<Rightarrow> 64 word \<Rightarrow> 'w \<Rightarrow> error option \<times> 'w"
  AddFee :: "string \<Rightarrow> string \<Rightarrow> 64 word \<Rightarrow> 'w \<Rightarrow> error option \<times> 'w"
  SubFee :: "string \<Rightarrow> string \<Rightarrow> 64 word \<Rightarrow> 'w \<Rightarrow> error option \<times> 'w"
  SignTransaction :: "string \<Rightarrow> 'w \<Rightarrow> error option \<times> 'w"
  ComposeTransaction :: "string \<Rightarrow> 'w \<Rightarrow> (error + 'tx) \<times> 'w"
  ParseJSON2Request :: "string \<Rightarrow> error + JSON2Request"

type_synonym ('w, 'tx) handled = "(JSONError + 'tx response) \<times> 'w"

definition mkAddressResponse :: "addressResponder \<Rightarrow> addressResponse" where
  "mkAddressResponse a = \<lparr>Public = PubString a, Secret = SecString a\<rparr>"


section \<open>The handlers\<close>

definition handleAddress ::
  "('w, 'ec, 'fct, 'tx) env \<Rightarrow> json \<Rightarrow> 'w \<Rightarrow> ('w, 'tx) handled" where
  "handleAddress env params w =
     (case mapToObject Unmarshal_addressRequest params new_addressRequest of
        (req, Some err) \<Rightarrow> (Inl InvalidParamsError, w)
      | (req, None) \<Rightarrow>
          (case AddressStringType env (Address req) of
             ECPub \<Rightarrow>
               (case GetECAddress env (Address req) w of
                  (Inl err, w') \<Rightarrow> (Inl (CustomInternalError err), w')
                | (Inr e, w') \<Rightarrow>
                    (Inr (AddressResponse (mkAddressResponse (ecResponder env e))), w'))
           | FactoidPub \<Rightarrow>
               (case GetFCTAddress env (Address req) w of
                  (Inl err, w') \<Rightarrow> (Inl (CustomInternalError err), w')
                | (Inr f, w') \<Rightarrow>
                    (Inr (AddressResponse (mkAddressResponse (fctResponder env f))), w'))
           | _ \<Rightarrow> (Inl (CustomInternalError ''Invalid address type''), w)))"

text \<open>The two \<open>range\<close> loops that append the factoid addresses and then the
  entry-credit addresses to \<open>resp.Addresses\<close>.\<close>

definition appendAddresses ::
  "('w, 'ec, 'fct, 'tx) env \<Rightarrow> addressResponse list \<Rightarrow> 'fct list \<Rightarrow> 'ec list
     \<Rightarrow> addressResponse list" where
  "appendAddresses env addrs fs es =
     (let addrs = foldl (\<lambda>acc f. acc @ [mkAddressResponse (fctResponder env f)]) addrs fs;
          addrs = foldl (\<lambda>acc e. acc @ [mkAddressResponse (ecResponder env e)]) addrs es
      in addrs)"

definition handleAllAddresses ::
  "('w, 'ec, 'fct, 'tx) env \<Rightarrow> json \<Rightarrow> 'w \<Rightarrow> ('w, 'tx) handled" where
  "handleAllAddresses env params w =
     (case GetAllAddresses env w of
        (Inl err, w') \<Rightarrow> (Inl (CustomInternalError err), w')
      | (Inr (fs, es), w') \<Rightarrow> (Inr (MultiAddressResponse (appendAddresses env [] fs es)), w'))"

definition handleGenerateFactoidAddress ::
  "('w, 'ec, 'fct, 'tx) env \<Rightarrow> json \<Rightarrow> 'w \<Rightarrow> ('w, 'tx) handled" where
  "handleGenerateFactoidAddress env params w =
     (case GenerateFCTAddress env w of
        (Inl err, w') \<Rightarrow> (Inl (CustomInternalError err), w')
      | (Inr a, w') \<Rightarrow> (Inr (AddressResponse (mkAddressResponse (fctResponder env a))), w'))"

definition handleGenerateECAddress ::
  "('w, 'ec, 'fct, 'tx) env \<Rightarrow> json \<Rightarrow> 'w \<Rightarrow> ('w, 'tx) handled" where
  "handleGenerateECAddress env params w =
     (case GenerateECAddress env w of
        (Inl err, w') \<Rightarrow> (Inl (CustomInternalError err), w')
      | (Inr a, w') \<Rightarrow> (Inr (AddressResponse (mkAddressResponse (ecResponder env a))), w'))"

text \<open>The loop of \<open>handleImportAddresses\<close> over \<open>req.Addresses\<close>: it returns from the
  handler at the first address that fails, and otherwise carries the responses
  collected so far and the state of the wallet.\<close>

fun importAddresses ::
  "('w, 'ec, 'fct, 'tx) env \<Rightarrow> importAddress list \<Rightarrow> addressResponse list \<Rightarrow> 'w
     \<Rightarrow> ('w, 'tx) handled" where
  "importAddresses env [] addrs w = (Inr (MultiAddressResponse addrs), w)"
| "importAddresses env (v # vs) addrs w =
     (case AddressStringType env (imp_Secret v) of
        FactoidSec \<Rightarrow>
          (case factom_GetFactoidAddress env (imp_Secret v) of
             Inl err \<Rightarrow> (Inl (CustomInternalError err), w)
           | Inr f \<Rightarrow>
               (case PutFCTAddress env f w of
                  (Some err, w') \<Rightarrow> (Inl (CustomInternalError err), w')
                | (None, w') \<Rightarrow>
                    importAddresses env vs
                      (addrs @ [mkAddressResponse (fctResponder env f)]) w'))
      | ECSec \<Rightarrow>
          (case factom_GetECAddress env (imp_Secret v) of
             Inl err \<Rightarrow> (Inl (CustomInternalError err), w)
           | Inr e \<Rightarrow>
               (case PutECAddress env e w of
                  (Some err, w') \<Rightarrow> (Inl (CustomInternalError err), w')
                | (None, w') \<Rightarrow>
                    importAddresses env vs
                      (addrs @ [mkAddressResponse (ecResponder env e)]) w'))
      | _ \<Rightarrow> (Inl (CustomInternalError ''address could not be imported''), w))"

definition handleImportAddresses ::
  "('w, 'ec, 'fct, 'tx) env \<Rightarrow> json \<Rightarrow> 'w \<Rightarrow> ('w, 'tx) handled" where
  "handleImportAddresses env params w =
     (case mapToObject Unmarshal_importRequest params new_importRequest of
        (req, Some err) \<Rightarrow> (Inl InvalidParamsError, w)
      | (req, None) \<Rightarrow> importAddresses env (Addresses req) [] w)"

definition handleWalletBackup ::
  "('w, 'ec, 'fct, 'tx) env \<Rightarrow> json \<Rightarrow> 'w \<Rightarrow> ('w, 'tx) handled" where
  "handleWalletBackup env params w =
     (case GetSeed env w of
        (Inl err, w') \<Rightarrow> (Inl (CustomInternalError err), w')
      | (Inr seed, w') \<Rightarrow>
          (case GetAllAddresses env w' of
             (Inl err, w'') \<Rightarrow> (Inl (CustomInternalError err), w'')
           | (Inr (fs, es), w'') \<Rightarrow>
               (Inr (WalletBackupResponse seed (appendAddresses env [] fs es)), w'')))"

text \<open>The handlers of the named transactions.  Those that bind a
  \<open>transactionRequest\<close> and make one wallet call that returns only an error differ in
  that call alone.\<close>

definition success :: "error option \<times> 'w \<Rightarrow> ('w, 'tx) handled" where
  "success r =
     (case r of
        (Some err, w') \<Rightarrow> (Inl (CustomInternalError err), w')
      | (None, w') \<Rightarrow> (Inr (StringResponse ''success''), w'))"

definition handleNewTransaction ::
  "('w, 'ec, 'fct, 'tx) env \<Rightarrow> json \<Rightarrow> 'w \<Rightarrow> ('w, 'tx) handled" where
  "handleNewTransaction env params w =
     (case mapToObject Unmarshal_transactionRequest params new_transactionRequest of
        (req, Some err) \<Rightarrow> (Inl InvalidParamsError, w)
      | (req, None) \<Rightarrow> success (NewTransaction env (tx_Name req) w))"

definition handleDeleteTransaction ::
  "('w, 'ec, 'fct, 'tx) env \<Rightarrow> json \<Rightarrow> 'w \<Rightarrow> ('w, 'tx) handled" where
  "handleDeleteTransaction env params w =
     (case mapToObject Unmarshal_transactionRequest params new_transactionRequest of
        (req, Some err) \<Rightarrow> (Inl InvalidParamsError, w)
      | (req, None) \<Rightarrow> success (DeleteTransaction env (tx_Name req) w))"

definition handleAddInput ::
  "('w, 'ec, 'fct, 'tx) env \<Rightarrow> json \<Rightarrow> 'w \<Rightarrow> ('w, 'tx) handled" where
  "handleAddInput env params w =
     (case mapToObject Unmarshal_transactionValueRequest params new_transactionValueRequest of
        (req, Some err) \<Rightarrow> (Inl InvalidParamsError, w)
      | (req, None) \<Rightarrow> success (AddInput env (txv_Name req) (txv_Address req) (Amount req) w))"

definition handleAddOutput ::
  "('w, 'ec, 'fct, 'tx) env \<Rightarrow> json \<Rightarrow> 'w \<Rightarrow> ('w, 'tx) handled" where
  "handleAddOutput env params w =
     (case mapToObject Unmarshal_transactionValueRequest params new_transactionValueRequest of
        (req, Some err) \<Rightarrow> (Inl InvalidParamsError, w)
      | (req, None) \<Rightarrow> success (AddOutput env (txv_Name req) (txv_Address req) (Amount req) w))"

definition handleAddECOutput ::
  "('w, 'ec, 'fct, 'tx) env \<Rightarrow> json \<Rightarrow> 'w \<Rightarrow> ('w, 'tx) handled" where
  "handleAddECOutput env params w =
     (case mapToObject Unmarshal_transactionValueRequest params new_transactionValueRequest of
        (req, Some err) \<Rightarrow> (Inl InvalidParamsError, w)
      | (req, None) \<Rightarrow> success (AddECOutput env (txv_Name req) (txv_Address req) (Amount req) w))"

definition handleAddFee ::
  "('w, 'ec, 'fct, 'tx) env \<Rightarrow> json \<Rightarrow> 'w \<Rightarrow> ('w, 'tx) handled" where
  "handleAddFee env params w =
     (case mapToObject Unmarshal_transactionAddressRequest params new_transactionAddressRequest of
        (req, Some err) \<Rightarrow> (Inl InvalidParamsError, w)
      | (req, None) \<Rightarrow>
          (case factom_GetRate env w of
             (Inl err, w') \<Rightarrow> (Inl (CustomInternalError err), w')
           | (Inr rate, w') \<Rightarrow> success (AddFee env (txa_Name req) (txa_Address req) rate w')))"

definition handleSubFee ::
  "('w, 'ec, 'fct, 'tx) env \<Rightarrow> json \<Rightarrow> 'w \<Rightarrow> ('w, 'tx) handled" where
  "handleSubFee env params w =
     (case mapToObject Unmarshal_transactionAddressRequest params new_transactionAddressRequest of
        (req, Some err) \<Rightarrow> (Inl InvalidParamsError, w)
      | (req, None) \<Rightarrow>
          (case factom_GetRate env w of
             (Inl err, w') \<Rightarrow> (Inl (CustomInternalError err), w')
           | (Inr rate, w') \<Rightarrow> success (SubFee env (txa_Name req) (txa_Address req) rate w')))"

definition handleSignTransaction ::
  "('w, 'ec, 'fct, 'tx) env \<Rightarrow> json \<Rightarrow> 'w \<Rightarrow> ('w, 'tx) handled" where
  "handleSignTransaction env params w =
     (case mapToObject Unmarshal_transactionRequest params new_transactionRequest of
        (req, Some err) \<Rightarrow> (Inl InvalidParamsError, w)
      | (req, None) \<Rightarrow> success (SignTransaction env (tx_Name req) w))"

definition handleComposeTransaction ::
  "('w, 'ec, 'fct, 'tx) env \<Rightarrow> json \<Rightarrow> 'w \<Rightarrow> ('w, 'tx) handled" where
  "handleComposeTransaction env params w =
     (case mapToObject Unmarshal_transactionRequest params new_transactionRequest of
        (req, Some err) \<Rightarrow> (Inl InvalidParamsError, w)
      | (req, None) \<Rightarrow>
          (case ComposeTransaction env (tx_Name req) w of
             (Inl err, w') \<Rightarrow> (Inl (CustomInternalError err), w')
           | (Inr t, w') \<Rightarrow> (Inr (TransactionResponse t), w')))"

section \<open>The dispatcher\<close>

text \<open>
  \<open>handleV2Request\<close>: the \<open>switch\<close> on the method, then either the error alone or
  a new response that carries the id of the request and the result.
\<close>

definition handleV2Request ::
  "('w, 'ec, 'fct, 'tx) env \<Rightarrow> JSON2Request \<Rightarrow> 'w
     \<Rightarrow> (JSONError + 'tx JSON2Response) \<times> 'w" where
  "handleV2Request env j w =
     (let params = Params j in
      case (if Method j = ''address'' then handleAddress env params w
            else if Method j = ''all-addresses'' then handleAllAddresses env params w
            else if Method j = ''generate-ec-address'' then handleGenerateECAddress env params w
            else if Method j = ''generate-factoid-address''
              then handleGenerateFactoidAddress env params w
            else if Method j = ''import-addresses'' then handleImportAddresses env params w
            else if Method j = ''wallet-backup'' then handleWalletBackup env params w
            else if Method j = ''new-transaction'' then handleNewTransaction env params w
            else if Method j = ''delete-transaction'' then handleDeleteTransaction env params w
            else if Method j = ''add-input'' then handleAddInput env params w
            else if Method j = ''add-output'' then handleAddOutput env params w
            else if Method j = ''add-ec-output'' then handleAddECOutput env params w
            else if Method j = ''add-fee'' then handleAddFee env params w
            else if Method j = ''sub-fee'' then handleSubFee env params w
            else if Method j = ''sign-transaction'' then handleSignTransaction env params w
            else if Method j = ''compose-transaction''
              then handleComposeTransaction env params w
            else (Inl MethodNotFoundError, w)) of
        (Inl jsonError, w') \<Rightarrow> (Inl jsonError, w')
      | (Inr resp, w') \<Rightarrow>
          (Inr (NewJSON2Response\<lparr>resp_ID := ID j, Result := Some resp\<rparr>), w'))"

text \<open>
  Modelled from the spec: \<open>handleV2Error\<close>, which renders the error response, is not
  part of the source at hand.  By the specification the response carries the error
  and no result, and echoes the id of the request; where no request could be parsed
  there is no id.
\<close>

definition handleV2Error :: "JSON2Request option \<Rightarrow> JSONError \<Rightarrow> 'tx JSON2Response" where
  "handleV2Error j err =
     NewJSON2Response
       \<lparr>resp_ID := (case j of None \<Rightarrow> JNull | Some r \<Rightarrow> ID r), Error := Some err\<rparr>"

text \<open>
  \<open>handleV2\<close>: \<open>body\<close> is what reading the request body gave, an error or the content.
  The result is the response written to the client, with the state of the wallet.
\<close>

definition handleV2 ::
  "('w, 'ec, 'fct, 'tx) env \<Rightarrow> error + string \<Rightarrow> 'w \<Rightarrow> 'tx JSON2Response \<times> 'w" where
  "handleV2 env body w =
     (case body of
        Inl err \<Rightarrow> (handleV2Error None InvalidRequestError, w)
      | Inr content \<Rightarrow>
          (case ParseJSON2Request env content of
             Inl err \<Rightarrow> (handleV2Error None InvalidRequestError, w)
           | Inr j \<Rightarrow>
               (case handleV2Request env j w of
                  (Inl jsonError, w') \<Rightarrow> (handleV2Error (Some j) jsonError, w')
                | (Inr jsonResp, w') \<Rightarrow> (jsonResp, w'))))"


section \<open>Which methods bind their parameters\<close>

text \<open>
  The handlers that call \<open>mapToObject\<close>, by the struct they bind, and whether that
  call reports an error for the parameters of a request.
\<close>

definition transactionRequest_methods :: "string list" where
  "transactionRequest_methods =
     [''new-transaction'', ''delete-transaction'', ''sign-transaction'', ''compose-transaction'']"

definition transactionValueRequest_methods :: "string list" where
  "transactionValueRequest_methods = [''add-input'', ''add-output'', ''add-ec-output'']"

definition transactionAddressRequest_methods :: "string list" where
  "transactionAddressRequest_methods = [''add-fee'', ''sub-fee'']"

definition binding_methods :: "string list" where
  "binding_methods =
     ''address'' # ''import-addresses'' # transactionRequest_methods @
     transactionValueRequest_methods @ transactionAddressRequest_methods"

definition bind_error :: "string \<Rightarrow> json \<Rightarrow> bool" where
  "bind_error m params =
     (if m = ''address''
        then snd (mapToObject Unmarshal_addressRequest params new_addressRequest) \<noteq> None
      else if m = ''import-addresses''
        then snd (mapToObject Unmarshal_importRequest params new_importRequest) \<noteq> None
      else if m \<in> set transactionRequest_methods
        then snd (mapToObject Unmarshal_transactionRequest params new_transactionRequest) \<noteq> None
      else if m \<in> set transactionValueRequest_methods
        then snd (mapToObject Unmarshal_transactionValueRequest params
                    new_transactionValueRequest) \<noteq> None
      else if m \<in> set transactionAddressRequest_methods
        then snd (mapToObject Unmarshal_transactionAddressRequest params
                    new_transactionAddressRequest) \<noteq> None
      else False)"

definition object_or_null :: "json \<Rightarrow> bool" where
  "object_or_null v = (case v of JNull \<Rightarrow> True | JObject kvs \<Rightarrow> True | _ \<Rightarrow> False)"

definition string_or_null :: "json \<Rightarrow> bool" where
  "string_or_null v = (case v of JNull \<Rightarrow> True | JString s \<Rightarrow> True | _ \<Rightarrow> False)"

definition recognized_methods :: "string list" where
  "recognized_methods =
     [''address'', ''all-addresses'', ''generate-ec-address'', ''generate-factoid-address'',
      ''import-addresses'', ''wallet-backup'', ''new-transaction'', ''delete-transaction'',
      ''add-input'', ''add-output'', ''add-ec-output'', ''add-fee'', ''sub-fee'',
      ''sign-transaction'', ''compose-transaction'']"

section \<open>An environment that records the calls\<close>

text \<open>
  A concrete environment on which the handlers can be run: the state is the list of
  the wallet and service calls made so far, every call adds its name to the list and
  succeeds with a fixed value.
\<close>

text \<open>
  Modelled from the spec: \<open>AddressStringType\<close> of package \<open>factom\<close> is not part of the
  source at hand.  The specification makes it a total classification by the fixed
  length and the prefix of the string; the checksum is left out here.
\<close>

definition prefix_AddressStringType :: "string \<Rightarrow> addressType" where
  "prefix_AddressStringType s =
     (if length s \<noteq> 52 then InvalidAddress
      else if take 2 s = ''FA'' then FactoidPub
      else if take 2 s = ''Fs'' then FactoidSec
      else if take 2 s = ''EC'' then ECPub
      else if take 2 s = ''Es'' then ECSec
      else InvalidAddress)"

text \<open>The parser on the two request texts of the specification's examples; this
  environment takes every other text as unparsable.\<close>

definition example_ParseJSON2Request :: "string \<Rightarrow> error + JSON2Request" where
  \<open>example_ParseJSON2Request s =
     (if s = ''{"method":"bogus","params":{},"id":7}''
        then Inr \<lparr>Method = ''bogus'', Params = JObject [], ID = JNumber ''7''\<rparr>
      else if s = ''{"method":"address","params":{"addr":"x"},"id":1}''
        then Inr \<lparr>Method = ''address'', Params = JObject [(''addr'', JString ''x'')],
                   ID = JNumber ''1''\<rparr>
      else Inl ''invalid request'')\<close>

definition recording_env :: "(string list, addressResponder, addressResponder, string) env" where
  "recording_env =
     \<lparr>AddressStringType = prefix_AddressStringType,
      factom_GetFactoidAddress = (\<lambda>sec. Inr \<lparr>PubString = ''FA'' @ sec, SecString = sec\<rparr>),
      factom_GetECAddress = (\<lambda>sec. Inr \<lparr>PubString = ''EC'' @ sec, SecString = sec\<rparr>),
      factom_GetRate = (\<lambda>w. (Inr 1000, w @ [''GetRate''])),
      ecResponder = (\<lambda>a. a),
      fctResponder = (\<lambda>a. a),
      GetECAddress = (\<lambda>pub w. (Inr \<lparr>PubString = pub, SecString = ''Es''\<rparr>, w @ [''GetECAddress''])),
      GetFCTAddress = (\<lambda>pub w. (Inr \<lparr>PubString = pub, SecString = ''Fs''\<rparr>, w @ [''GetFCTAddress''])),
      GetAllAddresses =
        (\<lambda>w. (Inr ([\<lparr>PubString = ''FA'', SecString = ''Fs''\<rparr>],
                    [\<lparr>PubString = ''EC'', SecString = ''Es''\<rparr>]), w @ [''GetAllAddresses''])),
      GenerateFCTAddress =
        (\<lambda>w. (Inr \<lparr>PubString = ''FA'', SecString = ''Fs''\<rparr>, w @ [''GenerateFCTAddress''])),
      GenerateECAddress =
        (\<lambda>w. (Inr \<lparr>PubString = ''EC'', SecString = ''Es''\<rparr>, w @ [''GenerateECAddress''])),
      PutFCTAddress = (\<lambda>a w. (None, w @ [''PutFCTAddress''])),
      PutECAddress = (\<lambda>a w. (None, w @ [''PutECAddress''])),
      GetSeed = (\<lambda>w. (Inr ''seed'', w @ [''GetSeed''])),
      NewTransaction = (\<lambda>n w. (None, w @ [''NewTransaction''])),
      DeleteTransaction = (\<lambda>n w. (None, w @ [''DeleteTransaction''])),
      AddInput = (\<lambda>n a v w. (None, w @ [''AddInput''])),
      AddOutput = (\<lambda>n a v w. (None, w @ [''AddOutput''])),
      AddECOutput = (\<lambda>n a v w. (None, w @ [''AddECOutput''])),
      AddFee = (\<lambda>n a r w. (None, w @ [''AddFee''])),
      SubFee = (\<lambda>n a r w. (None, w @ [''SubFee''])),
      SignTransaction = (\<lambda>n w. (None, w @ [''SignTransaction''])),
      ComposeTransaction = (\<lambda>n w. (Inr n, w @ [''ComposeTransaction''])),
      ParseJSON2Request = example_ParseJSON2Request\<rparr>"


section \<open>The parameter shapes in the words of the specification\<close>






definition conforms_struct :: "(string \<times> (json \<Rightarrow> bool)) list \<Rightarrow> json \<Rightarrow> bool" where
  "conforms_struct flds v =
     (case v of
        JNull \<Rightarrow> True
      | JObject kvs \<Rightarrow>
          list_all (\<lambda>kv. case lookup_field flds (fst kv) of
                           None \<Rightarrow> True
                         | Some accepts \<Rightarrow> accepts (snd kv)) kvs
      | _ \<Rightarrow> False)"




section \<open>Big-endian fields\<close>

lemma ucast_drop_bit_of_nat:
  assumes "k + 8 \<le> LENGTH('a::len)"
  shows "(ucast (drop_bit k (of_nat n :: 'a word)) :: 8 word) = of_nat (n div 2 ^ k)"
proof (rule bit_word_eqI)
  fix i assume "i < LENGTH(8)"
  then have i: "i < 8" by simp
  with assms have ki: "k + i < LENGTH('a)" by simp
  show "bit (ucast (drop_bit k (of_nat n :: 'a word)) :: 8 word) i =
        bit (of_nat (n div 2 ^ k) :: 8 word) i"
    using i ki
    by (simp add: bit_ucast_iff bit_drop_bit_eq bit_of_nat_iff flip: drop_bit_eq_div)
qed

lemma ucast_of_nat_byte:
  assumes "8 \<le> LENGTH('a::len)"
  shows "(ucast (of_nat n :: 'a word) :: 8 word) = of_nat n"
  using ucast_drop_bit_of_nat [where k = 0 and 'a = 'a and n = n] assms by simp

lemma big_endian_4: "big_endian 4 n =
  [of_nat (n div 2 ^ 24), of_nat (n div 2 ^ 16), of_nat (n div 2 ^ 8), of_nat n]"
proof -
  have "big_endian (Suc (Suc (Suc (Suc 0)))) n =
    [of_nat (n div 256 div 256 div 256), of_nat (n div 256 div 256), of_nat (n div 256), of_nat n]"
    by simp
  moreover have "n div 256 div 256 = n div 2 ^ 16" "n div 256 div 256 div 256 = n div 2 ^ 24"
    "n div 256 = n div 2 ^ 8"
    by (simp_all add: div_mult2_eq [symmetric])
  moreover have "(4::nat) = Suc (Suc (Suc (Suc 0)))" by simp
  ultimately show ?thesis by metis
qed

lemma big_endian_add: "big_endian (k + 4) n = big_endian k (n div 2 ^ 32) @ big_endian 4 n"
proof -
  have step: "\<And>k n. big_endian (Suc k) n = big_endian k (n div 256) @ [of_nat n]" by simp
  have "k + 4 = Suc (Suc (Suc (Suc k)))" by simp
  then have "big_endian (k + 4) n = big_endian k (n div 256 div 256 div 256 div 256) @
     [of_nat (n div 256 div 256 div 256), of_nat (n div 256 div 256), of_nat (n div 256), of_nat n]"
    by (simp only: step append_assoc append_Cons append_Nil)
  moreover have "n div 256 div 256 div 256 div 256 = n div 2 ^ 32"
    by (simp add: div_mult2_eq [symmetric])
  moreover have "n div 256 div 256 = n div 2 ^ 16" "n div 256 div 256 div 256 = n div 2 ^ 24"
    "n div 256 = n div 2 ^ 8"
    by (simp_all add: div_mult2_eq [symmetric])
  ultimately show ?thesis by (simp only: big_endian_4)
qed

lemma big_endian_8: "big_endian 8 n =
  [of_nat (n div 2 ^ 56), of_nat (n div 2 ^ 48), of_nat (n div 2 ^ 40), of_nat (n div 2 ^ 32),
   of_nat (n div 2 ^ 24), of_nat (n div 2 ^ 16), of_nat (n div 2 ^ 8), of_nat n]"
proof -
  have "big_endian (4 + 4) n = big_endian 4 (n div 2 ^ 32) @ big_endian 4 n"
    by (rule big_endian_add)
  moreover have "n div 2 ^ 32 div 2 ^ 24 = n div 2 ^ 56" "n div 2 ^ 32 div 2 ^ 16 = n div 2 ^ 48"
    "n div 2 ^ 32 div 2 ^ 8 = n div 2 ^ 40"
    by (simp_all add: div_mult2_eq [symmetric])
  ultimately show ?thesis by (simp add: big_endian_4)
qed

lemma PutUint32_of_nat: "PutUint32 (of_nat n) = big_endian 4 n"
  unfolding PutUint32_def big_endian_4
  by (simp add: ucast_drop_bit_of_nat ucast_of_nat_byte)

lemma PutUint64_of_nat: "PutUint64 (of_nat n) = big_endian 8 n"
  unfolding PutUint64_def big_endian_8
  by (simp add: ucast_drop_bit_of_nat ucast_of_nat_byte)

lemma uint32_len: "PutUint32 (uint32 (len xs)) = big_endian 4 (length xs)"
  by (simp only: uint32_def len_def PutUint32_of_nat of_int_of_nat_eq)

lemma uint64_len: "PutUint64 (uint64 (len xs)) = big_endian 8 (length xs)"
  by (simp only: uint64_def len_def PutUint64_of_nat of_int_of_nat_eq)

lemma uint8_len: "[uint8 (len xs)] = big_endian 1 (length xs)"
  by (simp add: uint8_def len_def)

section \<open>The entry encoding\<close>

lemma ExtIDs_loop:
  "foldl (\<lambda>buf bs. Write (binary_Write_uint32 buf (uint32 (len bs))) bs) buf xs =
   buf @ concat (map (\<lambda>x. big_endian 4 (length x) @ x) xs)"
  by (induction xs arbitrary: buf)
     (simp_all only: foldl.simps Write_def binary_Write_uint32_def uint32_len list.map
        concat.simps append_assoc append_Nil2)

lemma Entry_MarshalBinary_layout: "Entry_MarshalBinary e = Entry_layout e"
  unfolding Entry_MarshalBinary_def Entry_layout_def Let_def ExtIDs_loop
  by (simp only: Write_def binary_Write_uint8_def uint8_len append_Nil append_assoc)

lemma Name_loop:
  "foldl (\<lambda>buf bs. Write (binary_Write_uint64 buf (uint64 (len bs))) bs) buf xs =
   buf @ concat (map (\<lambda>x. big_endian 8 (length x) @ x) xs)"
  by (induction xs arbitrary: buf)
     (simp_all only: foldl.simps Write_def binary_Write_uint64_def uint64_len list.map
        concat.simps append_assoc append_Nil2)

lemma Chain_MarshalBinary_layout: "Chain_MarshalBinary c = Chain_layout c"
  unfolding Chain_MarshalBinary_def Chain_layout_def Let_def Name_loop
  by (simp only: Write_def binary_Write_uint64_def uint64_len append_Nil append_assoc)

lemma append_bytes_loop: "foldl (\<lambda>b w. b @ [w]) b ws = b @ ws"
  by (induction ws arbitrary: b) simp_all

lemma digest_loop:
  "foldl (\<lambda>b v. foldl (\<lambda>b w. b @ [w]) b (sha v)) b vs = b @ concat (map sha vs)"
  by (induction vs arbitrary: b) (simp_all add: append_bytes_loop)

lemma unat_of_nat_byte: "unat (of_nat n :: byte) = n mod 256"
  by (simp add: unat_of_nat)

lemma from_big_endian_snoc:
  "from_big_endian (bs @ [b]) = from_big_endian bs * 256 + unat b"
  by (simp add: from_big_endian_def)

lemma from_big_endian_big_endian: "from_big_endian (big_endian k n) = n mod 256 ^ k"
proof (induction k arbitrary: n)
  case 0
  show ?case by (simp add: from_big_endian_def)
next
  case (Suc k)
  have "from_big_endian (big_endian (Suc k) n) = (n div 256) mod 256 ^ k * 256 + n mod 256"
    by (simp only: big_endian.simps from_big_endian_snoc Suc unat_of_nat_byte)
  also have "\<dots> = n mod 256 ^ Suc k"
    by (simp add: mod_mult2_eq)
  finally show ?case .
qed

lemma length_big_endian: "length (big_endian k n) = k"
  by (induction k arbitrary: n) simp_all

lemma read_bytes_append: "read_bytes (length xs) (xs @ ys) = Some (xs, ys)"
  by (simp add: read_bytes_def)

lemma read_uint_big_endian:
  "read_uint k (big_endian k n @ rest) = Some (n mod 256 ^ k, rest)"
  using read_bytes_append [of "big_endian k n" rest]
  by (simp add: read_uint_def length_big_endian from_big_endian_big_endian)

lemma hextable_nth: "n < 16 \<Longrightarrow> hextable ! n \<in> set hextable"
  by (rule nth_mem) (simp add: hextable_def)

lemma high_nibble_bound: "unat (drop_bit 4 (v :: byte)) < 16"
proof -
  have "unat v < 2 ^ LENGTH(8)" by (rule unsigned_less)
  then have "unat v < 256" by simp
  then have "unat v div 16 < 16" by simp
  moreover have "unat (drop_bit 4 v) = drop_bit 4 (unat v)" by (rule unat_drop_bit_eq)
  moreover have "drop_bit 4 (unat v) = unat v div 16" by (simp add: drop_bit_eq_div)
  ultimately show ?thesis by simp
qed

lemma low_nibble_bound: "unat ((v :: byte) AND 0x0f) < 16"
proof -
  have "(v AND 0x0f) = take_bit 4 v"
    by (simp add: take_bit_eq_mask mask_eq_exp_minus_1)
  moreover have "unat (take_bit 4 v) = take_bit 4 (unat v)"
    by (rule unsigned_take_bit_eq)
  moreover have "take_bit 4 (unat v) < 2 ^ 4"
    by (rule take_bit_nat_less_exp)
  ultimately show ?thesis by simp
qed

lemma EncodeToString_lowercase: "set (EncodeToString bs) \<subseteq> set hextable"
  by (induction bs) (simp_all add: EncodeToString_def hextable_nth high_nibble_bound low_nibble_bound)

lemma length_EncodeToString: "length (EncodeToString bs) = 2 * length bs"
  by (induction bs) (simp_all add: EncodeToString_def)

section \<open>The hex encoding\<close>

lemma nibble_cases:
  assumes "n < (16::nat)"
  shows "n \<in> {0, 1, 2, 3, 4, 5, 6, 7, 8, 9, 10, 11, 12, 13, 14, 15}"
  using assms by (simp only: insert_iff empty_iff) arith

lemma hextable_hex_digit:
  assumes "n < 16"
  shows "hextable ! n = hex_digit n"
  using nibble_cases [OF assms]
  by (simp only: insert_iff empty_iff, elim disjE) (simp_all add: hextable_def hex_digit_def)

lemma hex_value_hex_digit:
  assumes "n < 16"
  shows "hex_value (hex_digit n) = Some n"
  using nibble_cases [OF assms]
  by (simp only: insert_iff empty_iff, elim disjE) (simp_all add: hex_value_def hex_digit_def)

lemma high_nibble_div: "unat (drop_bit 4 (v :: byte)) = unat v div 16"
proof -
  have "unat (drop_bit 4 v) = drop_bit 4 (unat v)" by (rule unat_drop_bit_eq)
  also have "\<dots> = unat v div 16" by (simp add: drop_bit_eq_div)
  finally show ?thesis .
qed

lemma low_nibble_mod: "unat ((v :: byte) AND 0x0f) = unat v mod 16"
proof -
  have "(v AND 0x0f) = take_bit 4 v"
    by (simp add: take_bit_eq_mask mask_eq_exp_minus_1)
  moreover have "unat (take_bit 4 v) = take_bit 4 (unat v)"
    by (rule unsigned_take_bit_eq)
  moreover have "take_bit 4 (unat v) = unat v mod 16"
    by (simp add: take_bit_eq_mod)
  ultimately show ?thesis by simp
qed

lemma EncodeToString_lowercase_hex: "EncodeToString bs = lowercase_hex bs"
proof -
  have "[hextable ! unat (drop_bit 4 v), hextable ! unat (v AND 0x0f)] =
        [hex_digit (unat v div 16), hex_digit (unat v mod 16)]" for v :: byte
    using high_nibble_bound [of v] low_nibble_bound [of v]
    by (simp add: hextable_hex_digit high_nibble_div low_nibble_mod)
  then show ?thesis
    by (simp add: EncodeToString_def lowercase_hex_def)
qed

lemma byte_of_nibbles: "(of_nat (16 * (unat v div 16) + unat v mod 16) :: byte) = v"
  by simp

lemma hex_decode_lowercase_hex: "hex_decode (lowercase_hex bs) = Some bs"
proof (induction bs)
  case Nil
  show ?case by (simp add: lowercase_hex_def)
next
  case (Cons v bs)
  have hi: "unat v div 16 < 16"
    using high_nibble_bound [of v] by (simp only: high_nibble_div)
  have lo: "unat v mod 16 < 16" by simp
  have "lowercase_hex (v # bs) =
        hex_digit (unat v div 16) # hex_digit (unat v mod 16) # lowercase_hex bs"
    by (simp add: lowercase_hex_def)
  then show ?case
    by (simp only: hex_decode.simps hex_value_hex_digit [OF hi] hex_value_hex_digit [OF lo]
          Cons.IH option.case byte_of_nibbles)
qed

section \<open>Decoding an entry\<close>


lemma read_ExtIDs_encoded:
  assumes "\<forall>x \<in> set xs. length x < 2 ^ 32"
  shows "read_ExtIDs (length xs) (concat (map (\<lambda>x. big_endian 4 (length x) @ x) xs) @ rest)
         = Some (xs, rest)"
  using assms
proof (induction xs)
  case Nil
  show ?case by simp
next
  case (Cons x xs)
  have small: "length x mod 256 ^ 4 = length x"
    using Cons.prems by simp
  have hd: "read_uint 4 (big_endian 4 (length x) @ x @
               concat (map (\<lambda>x. big_endian 4 (length x) @ x) xs) @ rest)
            = Some (length x, x @ concat (map (\<lambda>x. big_endian 4 (length x) @ x) xs) @ rest)"
    using read_uint_big_endian [of 4 "length x"] small by simp
  have body: "read_bytes (length x) (x @ concat (map (\<lambda>x. big_endian 4 (length x) @ x) xs) @ rest)
            = Some (x, concat (map (\<lambda>x. big_endian 4 (length x) @ x) xs) @ rest)"
    by (rule read_bytes_append)
  have tl: "read_ExtIDs (length xs) (concat (map (\<lambda>x. big_endian 4 (length x) @ x) xs) @ rest)
            = Some (xs, rest)"
    using Cons by simp
  show ?case
    by (simp add: hd body tl del: big_endian.simps)
qed

lemma Entry_decode_layout:
  assumes "length (ChainID e) \<le> 255" and "length (ExtIDs e) \<le> 255"
    and "\<forall>x \<in> set (ExtIDs e). length x < 2 ^ 32"
  shows "Entry_decode (Entry_layout e) = Some e"
proof -
  let ?ext = "concat (map (\<lambda>x. big_endian 4 (length x) @ x) (ExtIDs e))"
  have n: "length (ChainID e) mod 256 ^ 1 = length (ChainID e)"
    and m: "length (ExtIDs e) mod 256 ^ 1 = length (ExtIDs e)"
    using assms by simp_all
  have s1: "read_uint 1 (Entry_layout e) =
      Some (length (ChainID e), ChainID e @ big_endian 1 (length (ExtIDs e)) @ ?ext @ Data e)"
    unfolding Entry_layout_def using read_uint_big_endian [of 1 "length (ChainID e)"] n
    by (simp only:)
  have s2: "read_bytes (length (ChainID e))
       (ChainID e @ big_endian 1 (length (ExtIDs e)) @ ?ext @ Data e) =
      Some (ChainID e, big_endian 1 (length (ExtIDs e)) @ ?ext @ Data e)"
    by (rule read_bytes_append)
  have s3: "read_uint 1 (big_endian 1 (length (ExtIDs e)) @ ?ext @ Data e) =
      Some (length (ExtIDs e), ?ext @ Data e)"
    using read_uint_big_endian [of 1 "length (ExtIDs e)"] m by (simp only:)
  have s4: "read_ExtIDs (length (ExtIDs e)) (?ext @ Data e) = Some (ExtIDs e, Data e)"
    using assms(3) by (rule read_ExtIDs_encoded)
  show ?thesis
    unfolding Entry_decode_def by (simp only: s1 s2 s3 s4 option.case prod.case) simp
qed

section \<open>The claims about the codecs\<close>


text \<open>
  Claim C1, as amended.  For every entry whose chain id has at most 255 bytes, which
  has at most 255 external ids, each shorter than \<open>2 ^ 32\<close> bytes,
  \<open>MarshalBinary\<close> is the concatenation of one byte equal to the length of the chain
  id, the chain id, one byte equal to the count of the external ids, for each external
  id in order a 4-byte big-endian field that holds its length and then its bytes, and
  the data with no length prefix.  The entry with chain id 01 02, the one external id
  41 42 and the data 43 encodes to 02 01 02 01 00 00 00 02 41 42 43.
\<close>

theorem Entry_MarshalBinary_within_bounds:
  assumes "length (ChainID e) \<le> 255" and "length (ExtIDs e) \<le> 255"
    and "\<forall>x \<in> set (ExtIDs e). length x < 2 ^ 32"
  shows "Entry_MarshalBinary e =
           [of_nat (length (ChainID e))] @ ChainID e @ [of_nat (length (ExtIDs e))] @
           concat (map (\<lambda>x. big_endian 4 (length x) @ x) (ExtIDs e)) @ Data e
       \<and> unat (of_nat (length (ChainID e)) :: byte) = length (ChainID e)
       \<and> unat (of_nat (length (ExtIDs e)) :: byte) = length (ExtIDs e)
       \<and> unat (Entry_MarshalBinary e ! 0) = length (ChainID e)
       \<and> unat (Entry_MarshalBinary e ! (1 + length (ChainID e))) = length (ExtIDs e)
       \<and> (\<forall>x \<in> set (ExtIDs e).
             length (big_endian 4 (length x)) = 4
             \<and> from_big_endian (big_endian 4 (length x)) = length x)
       \<and> Entry_MarshalBinary \<lparr>ChainID = [0x01, 0x02], ExtIDs = [[0x41, 0x42]], Data = [0x43]\<rparr> =
           [0x02, 0x01, 0x02, 0x01, 0x00, 0x00, 0x00, 0x02, 0x41, 0x42, 0x43]"
proof -
  have lay: "Entry_MarshalBinary e =
     [of_nat (length (ChainID e))] @ ChainID e @ [of_nat (length (ExtIDs e))] @
     concat (map (\<lambda>x. big_endian 4 (length x) @ x) (ExtIDs e)) @ Data e"
    by (simp add: Entry_MarshalBinary_layout Entry_layout_def)
  have b1: "unat (of_nat (length (ChainID e)) :: byte) = length (ChainID e)"
    using assms(1) by (simp add: unat_of_nat)
  have b2: "unat (of_nat (length (ExtIDs e)) :: byte) = length (ExtIDs e)"
    using assms(2) by (simp add: unat_of_nat)
  have n0: "unat (Entry_MarshalBinary e ! 0) = length (ChainID e)"
    using b1 by (simp add: lay)
  have n1: "unat (Entry_MarshalBinary e ! (1 + length (ChainID e))) = length (ExtIDs e)"
    using b2 by (simp add: lay nth_append)
  have ext: "\<forall>x \<in> set (ExtIDs e).
             length (big_endian 4 (length x)) = 4
             \<and> from_big_endian (big_endian 4 (length x)) = length x"
    using assms(3) by (simp add: length_big_endian from_big_endian_big_endian del: big_endian.simps)
  have ex: "Entry_MarshalBinary \<lparr>ChainID = [0x01, 0x02], ExtIDs = [[0x41, 0x42]], Data = [0x43]\<rparr> =
       [0x02, 0x01, 0x02, 0x01, 0x00, 0x00, 0x00, 0x02, 0x41, 0x42, 0x43]"
    by (simp add: Entry_MarshalBinary_def Write_def binary_Write_uint8_def
          binary_Write_uint32_def PutUint32_def uint8_def uint32_def len_def)
  show ?thesis using lay b1 b2 n0 n1 ext ex by blast
qed

theorem Entry_MarshalBinary_within_bounds_witness:
  "length (ChainID \<lparr>ChainID = [0x01, 0x02], ExtIDs = [[0x41, 0x42]], Data = [0x43]\<rparr>) \<le> 255
   \<and> length (ExtIDs \<lparr>ChainID = [0x01, 0x02], ExtIDs = [[0x41, 0x42]], Data = [0x43]\<rparr>) \<le> 255
   \<and> length [0x41, 0x42 :: byte] < 2 ^ 32
   \<and> unat (Entry_MarshalBinary
              \<lparr>ChainID = [0x01, 0x02], ExtIDs = [[0x41, 0x42]], Data = [0x43]\<rparr> ! 0) = 2
   \<and> unat (Entry_MarshalBinary
              \<lparr>ChainID = [0x01, 0x02], ExtIDs = [[0x41, 0x42]], Data = [0x43]\<rparr> ! 3) = 1"
proof -
  let ?e = "\<lparr>ChainID = [0x01, 0x02], ExtIDs = [[0x41, 0x42]], Data = [0x43]\<rparr> :: Entry"
  have h1: "length (ChainID ?e) \<le> 255" and h2: "length (ExtIDs ?e) \<le> 255"
    and h3: "\<forall>x \<in> set (ExtIDs ?e). length x < 2 ^ 32"
    by simp_all
  show ?thesis
    using Entry_MarshalBinary_within_bounds [OF h1 h2 h3] by simp
qed

text \<open>
  Claim C1 as stated, for every entry, fails on a chain id of 256 bytes: the first
  byte of the encoding is 0, not the length.
\<close>

theorem Entry_MarshalBinary_long_ChainID_counterexample:
  "length (ChainID \<lparr>ChainID = replicate 256 0x07, ExtIDs = [], Data = [0x43]\<rparr>) = 256
   \<and> unat (Entry_MarshalBinary \<lparr>ChainID = replicate 256 0x07, ExtIDs = [], Data = [0x43]\<rparr> ! 0) = 0
   \<and> unat (Entry_MarshalBinary \<lparr>ChainID = replicate 256 0x07, ExtIDs = [], Data = [0x43]\<rparr> ! 0)
       \<noteq> length (ChainID \<lparr>ChainID = replicate 256 0x07, ExtIDs = [], Data = [0x43]\<rparr>)"
  by (simp add: Entry_MarshalBinary_layout Entry_layout_def)

text \<open>
  Claim C2.  For every chain, \<open>GenerateID\<close> hashes each name segment in order,
  concatenates the digests in that order, hashes the concatenation, stores that
  digest in the chain id and returns its lowercase hex encoding: the returned string
  is the two lowercase base-16 digits of every byte of the digest, and reading it
  back as lowercase hex gives the digest.
\<close>

theorem Chain_GenerateID_digest:
  "snd (Chain_GenerateID sha c) = c\<lparr>Chain_ChainID := sha (concat (map sha (Name c)))\<rparr>
   \<and> Chain_ChainID (snd (Chain_GenerateID sha c)) = sha (concat (map sha (Name c)))
   \<and> fst (Chain_GenerateID sha c) = lowercase_hex (sha (concat (map sha (Name c))))
   \<and> hex_decode (fst (Chain_GenerateID sha c)) = Some (sha (concat (map sha (Name c))))
   \<and> length (fst (Chain_GenerateID sha c)) = 2 * length (sha (concat (map sha (Name c))))"
proof -
  have eq: "Chain_GenerateID sha c =
     (EncodeToString (sha (concat (map sha (Name c)))),
      c\<lparr>Chain_ChainID := sha (concat (map sha (Name c)))\<rparr>)"
    by (simp add: Chain_GenerateID_def digest_loop Let_def)
  have dec: "hex_decode (EncodeToString (sha (concat (map sha (Name c))))) =
        Some (sha (concat (map sha (Name c))))"
    by (simp only: EncodeToString_lowercase_hex hex_decode_lowercase_hex)
  have len: "length (fst (Chain_GenerateID sha c)) = 2 * length (sha (concat (map sha (Name c))))"
    by (simp add: eq length_EncodeToString)
  have hex: "fst (Chain_GenerateID sha c) = lowercase_hex (sha (concat (map sha (Name c))))"
    by (simp add: eq EncodeToString_lowercase_hex)
  show ?thesis
    using dec len hex by (simp add: eq)
qed

text \<open>
  Claim C3.  For every entry, \<open>Hash\<close> is the lowercase hex encoding of the
  SHA-256 digest of \<open>MarshalBinary\<close>: the two lowercase base-16 digits of every
  byte of the digest, which read back as lowercase hex give the digest.  The hash is
  a function of the chain id, the external ids and the data alone, so two entries
  with equal fields have the same hash.
\<close>

theorem Entry_Hash_sha256_hex:
  "Entry_Hash sha256 e = lowercase_hex (sha256 (Entry_MarshalBinary e))
   \<and> hex_decode (Entry_Hash sha256 e) = Some (sha256 (Entry_MarshalBinary e))
   \<and> Entry_Hash sha256 e =
       lowercase_hex (sha256
         ([of_nat (length (ChainID e))] @ ChainID e @ [of_nat (length (ExtIDs e))] @
          concat (map (\<lambda>x. big_endian 4 (length x) @ x) (ExtIDs e)) @ Data e))
   \<and> (ChainID e' = ChainID e \<and> ExtIDs e' = ExtIDs e \<and> Data e' = Data e
        \<longrightarrow> Entry_Hash sha256 e' = Entry_Hash sha256 e)"
proof -
  have a: "Entry_Hash sha256 e = lowercase_hex (sha256 (Entry_MarshalBinary e))"
    by (simp add: Entry_Hash_def Write_def EncodeToString_lowercase_hex)
  have b: "hex_decode (Entry_Hash sha256 e) = Some (sha256 (Entry_MarshalBinary e))"
    by (simp only: a hex_decode_lowercase_hex)
  have c: "Entry_Hash sha256 e =
       lowercase_hex (sha256
         ([of_nat (length (ChainID e))] @ ChainID e @ [of_nat (length (ExtIDs e))] @
          concat (map (\<lambda>x. big_endian 4 (length x) @ x) (ExtIDs e)) @ Data e))"
    by (simp add: a Entry_MarshalBinary_layout Entry_layout_def)
  have d: "Entry_Hash sha256 e' = Entry_Hash sha256 e"
    if "ChainID e' = ChainID e \<and> ExtIDs e' = ExtIDs e \<and> Data e' = Data e"
    using that by (simp add: Entry_Hash_def Entry_MarshalBinary_def)
  show ?thesis using a b c d by blast
qed

theorem Entry_Hash_sha256_hex_witness:
  "ChainID \<lparr>ChainID = [0x01, 0x02], ExtIDs = [[0x41, 0x42]], Data = [0x43]\<rparr> = [0x01, 0x02]
   \<and> Entry_Hash (\<lambda>bs. map (\<lambda>b. b XOR 0xAB) (take 3 bs))
        \<lparr>ChainID = [0x01, 0x02], ExtIDs = [[0x41, 0x42]], Data = [0x43]\<rparr> = ''a9aaa9''
   \<and> hex_decode ''a9aaa9'' = Some [0xA9, 0xAA, 0xA9]"
proof -
  let ?e = "\<lparr>ChainID = [0x01, 0x02], ExtIDs = [[0x41, 0x42]], Data = [0x43]\<rparr> :: Entry"
  let ?h = "\<lambda>bs :: bytes. map (\<lambda>b. b XOR 0xAB) (take 3 bs)"
  have enc: "Entry_MarshalBinary ?e = [0x02, 0x01, 0x02, 0x01, 0x00, 0x00, 0x00, 0x02, 0x41, 0x42, 0x43]"
    by (simp add: Entry_MarshalBinary_def Write_def binary_Write_uint8_def
          binary_Write_uint32_def PutUint32_def uint8_def uint32_def len_def)
  have dig: "?h (Entry_MarshalBinary ?e) = [0xA9, 0xAA, 0xA9]"
    by (simp add: enc)
  have hx: "lowercase_hex [0xA9, 0xAA, 0xA9] = ''a9aaa9''"
    by (simp add: lowercase_hex_def hex_digit_def)
  have a: "Entry_Hash ?h ?e = lowercase_hex (?h (Entry_MarshalBinary ?e))"
    and b: "hex_decode (Entry_Hash ?h ?e) = Some (?h (Entry_MarshalBinary ?e))"
    using Entry_Hash_sha256_hex [of ?h ?e ?e] by blast+
  have a': "Entry_Hash ?h ?e = ''a9aaa9''"
    by (simp only: a dig hx)
  have b': "hex_decode ''a9aaa9'' = Some [0xA9, 0xAA, 0xA9]"
    using b by (simp only: a' dig)
  show ?thesis
    using a' b' by simp
qed

text \<open>
Claim C4.  For every entry whose chain id has at most 255 bytes, which has at most
  255 external ids, each of a length below \<open>2 ^ 32\<close>, decoding \<open>MarshalBinary\<close>
  by the inverse of the layout gives back the chain id, the external ids in the same
  order and the data.
\<close>

theorem Entry_round_trip:
  assumes "length (ChainID e) \<le> 255" and "length (ExtIDs e) \<le> 255"
    and "\<forall>x \<in> set (ExtIDs e). length x < 2 ^ 32"
  shows "Entry_decode (Entry_MarshalBinary e) = Some e"
  using assms by (simp only: Entry_MarshalBinary_layout Entry_decode_layout)

theorem Entry_round_trip_witness:
  "length (ChainID \<lparr>ChainID = [0x01, 0x02], ExtIDs = [[0x41, 0x42]], Data = [0x43]\<rparr>) \<le> 255
   \<and> length (ExtIDs \<lparr>ChainID = [0x01, 0x02], ExtIDs = [[0x41, 0x42]], Data = [0x43]\<rparr>) \<le> 255
   \<and> length [0x41, 0x42 :: byte] < 2 ^ 32
   \<and> Entry_decode [0x02, 0x01, 0x02, 0x01, 0x00, 0x00, 0x00, 0x02, 0x41, 0x42, 0x43] =
       Some \<lparr>ChainID = [0x01, 0x02], ExtIDs = [[0x41, 0x42]], Data = [0x43]\<rparr>"
proof -
  let ?e = "\<lparr>ChainID = [0x01, 0x02], ExtIDs = [[0x41, 0x42]], Data = [0x43]\<rparr> :: Entry"
  have h1: "length (ChainID ?e) \<le> 255" and h2: "length (ExtIDs ?e) \<le> 255"
    and h3: "\<forall>x \<in> set (ExtIDs ?e). length x < 2 ^ 32"
    by simp_all
  have enc: "Entry_MarshalBinary ?e = [0x02, 0x01, 0x02, 0x01, 0x00, 0x00, 0x00, 0x02, 0x41, 0x42, 0x43]"
    by (simp add: Entry_MarshalBinary_def Write_def binary_Write_uint8_def
          binary_Write_uint32_def PutUint32_def uint8_def uint32_def len_def)
  show ?thesis
    using Entry_round_trip [OF h1 h2 h3] h1 h2 by (simp only: enc) simp
qed

text \<open>
Claim C5.  For every entry whose chain id is longer than 255 bytes, or which has
  more than 255 external ids, \<open>MarshalBinary\<close> still produces its output: the
  one-byte fields hold the length and the count modulo 256, and the rest of the
  encoding is as for any other entry.
\<close>

theorem Entry_MarshalBinary_truncates:
  assumes "255 < length (ChainID e) \<or> 255 < length (ExtIDs e)"
  shows "Entry_MarshalBinary e =
     [of_nat (length (ChainID e) mod 256)] @ ChainID e @
     [of_nat (length (ExtIDs e) mod 256)] @
     concat (map (\<lambda>x. big_endian 4 (length x) @ x) (ExtIDs e)) @ Data e
   \<and> unat (Entry_MarshalBinary e ! 0) = length (ChainID e) mod 256
   \<and> unat (Entry_MarshalBinary e ! (1 + length (ChainID e))) = length (ExtIDs e) mod 256"
proof -
  have byte: "\<And>n. (of_nat (n mod 256) :: byte) = of_nat n"
    by (rule word_unat_eq_iff [THEN iffD2]) (simp add: unat_of_nat)
  have lay: "Entry_MarshalBinary e =
     [of_nat (length (ChainID e))] @ ChainID e @ [of_nat (length (ExtIDs e))] @
     concat (map (\<lambda>x. big_endian 4 (length x) @ x) (ExtIDs e)) @ Data e"
    by (simp add: Entry_MarshalBinary_layout Entry_layout_def)
  have "unat (Entry_MarshalBinary e ! 0) = length (ChainID e) mod 256"
    by (simp add: lay unat_of_nat)
  moreover have "unat (Entry_MarshalBinary e ! (1 + length (ChainID e))) = length (ExtIDs e) mod 256"
    by (simp add: lay nth_append unat_of_nat)
  ultimately show ?thesis
    by (simp only: byte) (simp add: lay)
qed

theorem Entry_MarshalBinary_truncates_witness:
  "(255 < length (ChainID \<lparr>ChainID = replicate 258 0x07, ExtIDs = [], Data = [0x43]\<rparr>)
     \<or> 255 < length (ExtIDs \<lparr>ChainID = replicate 258 0x07, ExtIDs = [], Data = [0x43]\<rparr>))
   \<and> Entry_MarshalBinary \<lparr>ChainID = replicate 258 0x07, ExtIDs = [], Data = [0x43]\<rparr> =
       [0x02] @ replicate 258 0x07 @ [0x00, 0x43]"
  using Entry_MarshalBinary_truncates [of "\<lparr>ChainID = replicate 258 0x07, ExtIDs = [], Data = [0x43]\<rparr>"]
  by simp

text \<open>
Claim C6.  For every chain, \<open>MarshalBinary\<close> is the concatenation of the chain
  id, an 8-byte big-endian count of the name segments, and for each segment in order
  an 8-byte big-endian length and its bytes; the first entry has no part in it.
\<close>

theorem Chain_MarshalBinary_concatenation:
  "Chain_MarshalBinary c =
     Chain_ChainID c @ big_endian 8 (length (Name c)) @
     concat (map (\<lambda>x. big_endian 8 (length x) @ x) (Name c))
   \<and> Chain_MarshalBinary (c\<lparr>FirstEntry := fe\<rparr>) = Chain_MarshalBinary c"
  by (simp add: Chain_MarshalBinary_layout Chain_layout_def)

text \<open>
Claim C7.  \<open>Chain.Hash\<close> returns the same string for any two chains, whatever
  their fields: the constant \<open>abcdefg\<close>.
\<close>

theorem Chain_Hash_constant:
  "Chain_Hash c1 = Chain_Hash c2 \<and> Chain_Hash c1 = ''abcdefg''"
  by (simp add: Chain_Hash_def)

section \<open>Binding the parameters\<close>

lemma Marshal_tree_not_object:
  "\<not> object_or_null v \<Longrightarrow> \<not> object_or_null (Marshal_tree v)"
  by (cases v) (simp_all add: object_or_null_def)

lemma Marshal_tree_not_string:
  "\<not> string_or_null v \<Longrightarrow> \<not> string_or_null (Marshal_tree v)"
  by (cases v) (simp_all add: string_or_null_def)

lemma Unmarshal_struct_not_object:
  "\<not> object_or_null v \<Longrightarrow> snd (Unmarshal_struct flds v dst) \<noteq> None"
  by (cases v) (simp_all add: object_or_null_def Unmarshal_struct_def)

lemma mapToObject_not_object:
  "\<not> object_or_null params \<Longrightarrow> snd (mapToObject (Unmarshal_struct flds) params dst) \<noteq> None"
  by (simp add: mapToObject_def Marshal_def Unmarshal_struct_not_object Marshal_tree_not_object)

lemma Unmarshal_string_wrong_type:
  "\<not> string_or_null v \<Longrightarrow> snd (Unmarshal_string v dst) \<noteq> None"
  by (cases v) (simp_all add: string_or_null_def Unmarshal_string_def)

lemma saved_error_kept:
  "saved \<noteq> None \<Longrightarrow>
   snd (foldl (\<lambda>(d, saved) (key, x).
                 case lookup_field flds key of
                   None \<Rightarrow> (d, saved)
                 | Some dec \<Rightarrow> (case dec x d of (d', err) \<Rightarrow> (d', saveError saved err)))
          (d, saved) kvs) \<noteq> None"
proof (induction kvs arbitrary: d saved)
  case Nil
  then show ?case by simp
next
  case (Cons kv kvs)
  obtain key x where kv: "kv = (key, x)" by (cases kv)
  show ?case
  proof (cases "lookup_field flds key")
    case None
    then show ?thesis using Cons by (simp add: kv)
  next
    case (Some dec)
    obtain d' err where dec: "dec x d = (d', err)" by (cases "dec x d")
    have "saveError saved err \<noteq> None"
      using Cons.prems by (cases saved) (simp_all add: saveError_def)
    then show ?thesis using Cons.IH [of "saveError saved err" d'] by (simp add: kv Some dec)
  qed
qed

lemma member_error_found:
  assumes "(key, x) \<in> set kvs" and "lookup_field flds key = Some dec"
    and "\<And>d. snd (dec x d) \<noteq> None"
  shows "snd (foldl (\<lambda>(d, saved) (key, x).
                 case lookup_field flds key of
                   None \<Rightarrow> (d, saved)
                 | Some dec \<Rightarrow> (case dec x d of (d', err) \<Rightarrow> (d', saveError saved err)))
          (d, saved) kvs) \<noteq> None"
  using assms(1)
proof (induction kvs arbitrary: d saved)
  case Nil
  then show ?case by simp
next
  case (Cons kv kvs)
  obtain key' x' where kv: "kv = (key', x')" by (cases kv)
  show ?case
  proof (cases "kv = (key, x)")
    case True
    obtain d' err where dec: "dec x d = (d', err)" by (cases "dec x d")
    have "err \<noteq> None" using assms(3) [of d] dec by simp
    then have "saveError saved err \<noteq> None"
      by (cases saved) (simp_all add: saveError_def)
    then show ?thesis
      using saved_error_kept [of "saveError saved err" flds d' kvs]
      by (simp add: True assms(2) dec)
  next
    case False
    then have "(key, x) \<in> set kvs" using Cons.prems by simp
    then show ?thesis
      using Cons.IH by (cases "lookup_field flds key'") (simp_all add: kv split: prod.splits)
  qed
qed

lemma Unmarshal_struct_member_error:
  assumes "(key, x) \<in> set kvs" and "lookup_field flds key = Some dec"
    and "\<And>d. snd (dec x d) \<noteq> None"
  shows "snd (Unmarshal_struct flds (JObject kvs) dst) \<noteq> None"
  unfolding Unmarshal_struct_def using member_error_found [OF assms] by simp

lemma Marshal_tree_member:
  assumes "(key, v) \<in> set kvs"
  obtains kvs' where "Marshal_tree (JObject kvs) = JObject kvs'"
    and "(key, Marshal_tree v) \<in> set kvs'"
proof
  show "Marshal_tree (JObject kvs) =
        JObject (sort_key fst (map (\<lambda>kv. (fst kv, Marshal_tree (snd kv))) kvs))"
    by simp
  show "(key, Marshal_tree v) \<in> set (sort_key fst (map (\<lambda>kv. (fst kv, Marshal_tree (snd kv))) kvs))"
    using assms by force
qed

lemma address_field_wrong_type:
  assumes "(key, v) \<in> set kvs" and "key = ''address'' \<or> equalFold ''address'' key"
    and "\<not> string_or_null v"
  shows "bind_error ''address'' (JObject kvs)"
proof -
  let ?dec = "\<lambda>v r. case Unmarshal_string v (Address r) of
                       (s, err) \<Rightarrow> (r\<lparr>Address := s\<rparr>, err)"
  obtain kvs' where m: "Marshal_tree (JObject kvs) = JObject kvs'"
    and mem: "(key, Marshal_tree v) \<in> set kvs'"
    using Marshal_tree_member [OF assms(1)] by blast
  have look: "lookup_field [(''address'', ?dec)] key = Some ?dec"
    using assms(2) by (cases "key = ''address''") (simp_all add: lookup_field_def del: equalFold.simps)
  have err: "\<And>d. snd (?dec (Marshal_tree v) d) \<noteq> None"
    using Unmarshal_string_wrong_type [OF Marshal_tree_not_string [OF assms(3)]]
    by (simp split: prod.splits) (metis snd_conv)
  have "snd (Unmarshal_struct [(''address'', ?dec)] (JObject kvs') new_addressRequest) \<noteq> None"
    using mem look err by (rule Unmarshal_struct_member_error)
  then show ?thesis
    by (simp add: bind_error_def mapToObject_def Marshal_def Unmarshal_addressRequest_def m
          del: Marshal_tree.simps)
qed

lemma binding_method_not_object:
  assumes "m \<in> set binding_methods" and "\<not> object_or_null params"
  shows "bind_error m params"
proof -
  have each:
    "snd (mapToObject Unmarshal_addressRequest params new_addressRequest) \<noteq> None"
    "snd (mapToObject Unmarshal_importRequest params new_importRequest) \<noteq> None"
    "snd (mapToObject Unmarshal_transactionRequest params new_transactionRequest) \<noteq> None"
    "snd (mapToObject Unmarshal_transactionValueRequest params new_transactionValueRequest) \<noteq> None"
    "snd (mapToObject Unmarshal_transactionAddressRequest params new_transactionAddressRequest)
       \<noteq> None"
    unfolding Unmarshal_addressRequest_def Unmarshal_importRequest_def
      Unmarshal_transactionRequest_def Unmarshal_transactionValueRequest_def
      Unmarshal_transactionAddressRequest_def
    by (rule mapToObject_not_object [OF assms(2)])+
  have cover: "m = ''address'' \<or> m = ''import-addresses'' \<or> m \<in> set transactionRequest_methods
      \<or> m \<in> set transactionValueRequest_methods \<or> m \<in> set transactionAddressRequest_methods"
    using assms(1) unfolding binding_methods_def by (simp only: set_ConsD set_append list.set Un_iff insert_iff) 
  show ?thesis
    unfolding bind_error_def using each cover by presburger
qed








lemma handleAddress_not_InvalidParams:
  "snd (mapToObject Unmarshal_addressRequest params new_addressRequest) = None \<Longrightarrow>
   fst (handleAddress env params w) \<noteq> Inl InvalidParamsError"
  by (cases "mapToObject Unmarshal_addressRequest params new_addressRequest")
     (auto simp add: handleAddress_def split: addressType.splits prod.splits sum.splits)

lemma handleV2Request_error:
  "fst (handleV2Request env j w) = Inl e \<Longrightarrow> Method j = ''address'' \<Longrightarrow>
   fst (handleAddress env (Params j) w) = Inl e"
  by (auto simp add: handleV2Request_def split: prod.splits sum.splits)

section \<open>Binding fails exactly on the values that do not conform\<close>






lemma conforms_struct_Marshal:
  assumes "\<And>k a x. lookup_field flds k = Some a \<Longrightarrow> a (Marshal_tree x) = a x"
  shows "conforms_struct flds (Marshal_tree v) = conforms_struct flds v"
proof (cases v)
  case (JObject kvs)
  have "(case lookup_field flds (fst kv) of None \<Rightarrow> True
         | Some accepts \<Rightarrow> accepts (snd (fst kv, Marshal_tree (snd kv)))) =
        (case lookup_field flds (fst kv) of None \<Rightarrow> True
         | Some accepts \<Rightarrow> accepts (snd kv))" for kv
    using assms by (cases "lookup_field flds (fst kv)") simp_all
  then show ?thesis
    by (simp add: JObject conforms_struct_def list_all_iff)
qed (simp_all add: conforms_struct_def)








lemma struct_fold_error:
  assumes none: "\<And>k. lookup_field decs k = None \<Longrightarrow> lookup_field accs k = None"
    and some: "\<And>k dec. lookup_field decs k = Some dec \<Longrightarrow>
            \<exists>acc. lookup_field accs k = Some acc \<and> (\<forall>x d. (snd (dec x d) = None) = acc x)"
  shows "(snd (foldl (\<lambda>(d, saved) (key, x).
                 case lookup_field decs key of
                   None \<Rightarrow> (d, saved)
                 | Some dec \<Rightarrow> (case dec x d of (d', err) \<Rightarrow> (d', saveError saved err)))
          (d, saved) kvs) = None) =
         (saved = None \<and>
          list_all (\<lambda>kv. case lookup_field accs (fst kv) of
                           None \<Rightarrow> True
                         | Some accepts \<Rightarrow> accepts (snd kv)) kvs)"
proof (induction kvs arbitrary: d saved)
  case Nil
  show ?case by simp
next
  case (Cons kv kvs)
  obtain key x where kv: "kv = (key, x)" by (cases kv)
  show ?case
  proof (cases "lookup_field decs key")
    case None
    have "lookup_field accs key = None" using None by (rule none)
    then show ?thesis by (simp add: kv None Cons.IH)
  next
    case (Some dec)
    obtain acc where acc: "lookup_field accs key = Some acc"
      and e: "\<And>x d. (snd (dec x d) = None) = acc x"
      using some [OF Some] by blast
    obtain d' err where dec: "dec x d = (d', err)" by (cases "dec x d")
    have "(err = None) = acc x" using e [of x d] dec by simp
    then have "(saveError saved err = None) = (saved = None \<and> acc x)"
      by (cases saved) (simp_all add: saveError_def)
    then show ?thesis
      by (simp add: kv Some acc dec Cons.IH)
  qed
qed

lemma Unmarshal_struct_conforms:
  assumes none: "\<And>k. lookup_field decs k = None \<Longrightarrow> lookup_field accs k = None"
    and some: "\<And>k dec. lookup_field decs k = Some dec \<Longrightarrow>
            \<exists>acc. lookup_field accs k = Some acc \<and> (\<forall>x d. (snd (dec x d) = None) = acc x)"
  shows "(snd (Unmarshal_struct decs v dst) = None) = conforms_struct accs v"
proof (cases v)
  case (JObject kvs)
  show ?thesis
    unfolding JObject Unmarshal_struct_def conforms_struct_def
    by (simp add: struct_fold_error [of decs accs, OF none some])
qed (simp_all add: Unmarshal_struct_def conforms_struct_def)



lemma mapToObject_struct_conforms:
  assumes none: "\<And>k. lookup_field decs k = None \<Longrightarrow> lookup_field accs k = None"
    and some: "\<And>k dec. lookup_field decs k = Some dec \<Longrightarrow>
            \<exists>acc. lookup_field accs k = Some acc \<and> (\<forall>x d. (snd (dec x d) = None) = acc x)"
    and inv: "\<And>k a x. lookup_field accs k = Some a \<Longrightarrow> a (Marshal_tree x) = a x"
  shows "(snd (mapToObject (Unmarshal_struct decs) params dst) = None) =
         conforms_struct accs params"
  using Unmarshal_struct_conforms [of decs accs "Marshal_tree params" dst, OF none some]
  by (simp add: mapToObject_def Marshal_def conforms_struct_Marshal [of accs, OF inv])
























section \<open>The claims about the dispatcher\<close>


lemma handleV2Request_unknown:
  assumes "Method j \<notin> set recognized_methods"
  shows "handleV2Request env j w = (Inl MethodNotFoundError, w)"
  using assms by (simp add: handleV2Request_def recognized_methods_def)

text \<open>
  Claim C8.  For every parsed request whose method is none of the fifteen recognized
  strings, the dispatcher gives a \<open>MethodNotFound\<close> error and no result, and the
  state of the wallet is as before; the error response carries the id of the request.
  The request with method \<open>bogus\<close>, empty params and id 7 gives the
  \<open>MethodNotFound\<close> response with id 7.
\<close>

theorem unknown_method_MethodNotFound:
  assumes "Method j \<notin> set recognized_methods"
  shows "handleV2Request env j w = (Inl MethodNotFoundError, w)
       \<and> (\<forall>body. ParseJSON2Request env body = Inr j \<longrightarrow>
            handleV2 env (Inr body) w =
              (\<lparr>resp_ID = ID j, Result = None, Error = Some MethodNotFoundError\<rparr>, w))"
  by (simp add: handleV2Request_unknown [OF assms] handleV2_def handleV2Error_def
        NewJSON2Response_def)

theorem unknown_method_MethodNotFound_witness:
  \<open>''bogus'' \<notin> set recognized_methods
   \<and> handleV2Request recording_env
        \<lparr>Method = ''bogus'', Params = JObject [], ID = JNumber ''7''\<rparr> [] =
       (Inl MethodNotFoundError, [])
   \<and> handleV2 recording_env (Inr ''{"method":"bogus","params":{},"id":7}'') [] =
       (\<lparr>resp_ID = JNumber ''7'', Result = None, Error = Some MethodNotFoundError\<rparr>, [])\<close>
proof -
  let ?j = "\<lparr>Method = ''bogus'', Params = JObject [], ID = JNumber ''7''\<rparr>"
  have h: "Method ?j \<notin> set recognized_methods"
    by (simp add: recognized_methods_def)
  have p: \<open>ParseJSON2Request recording_env ''{"method":"bogus","params":{},"id":7}'' = Inr ?j\<close>
    by (simp add: recording_env_def example_ParseJSON2Request_def)
  show ?thesis
    using unknown_method_MethodNotFound [OF h, of recording_env "[]"] h p by simp
qed




text \<open>
  Claim C10.  The handlers of \<open>generate-ec-address\<close>, \<open>generate-factoid-address\<close>,
  \<open>all-addresses\<close> and \<open>wallet-backup\<close> do not read their params: for params of any
  shape the outcome is the one for null params, it is never \<open>InvalidParams\<close>, and the
  state of the wallet is the one the wallet calls leave.
\<close>

theorem parameterless_handlers_ignore_params:
  "handleGenerateECAddress env params w = handleGenerateECAddress env JNull w
   \<and> handleGenerateFactoidAddress env params w = handleGenerateFactoidAddress env JNull w
   \<and> handleAllAddresses env params w = handleAllAddresses env JNull w
   \<and> handleWalletBackup env params w = handleWalletBackup env JNull w
   \<and> fst (handleGenerateECAddress env params w) \<noteq> Inl InvalidParamsError
   \<and> fst (handleGenerateFactoidAddress env params w) \<noteq> Inl InvalidParamsError
   \<and> fst (handleAllAddresses env params w) \<noteq> Inl InvalidParamsError
   \<and> fst (handleWalletBackup env params w) \<noteq> Inl InvalidParamsError
   \<and> snd (handleGenerateECAddress env params w) = snd (GenerateECAddress env w)
   \<and> snd (handleGenerateFactoidAddress env params w) = snd (GenerateFCTAddress env w)
   \<and> snd (handleAllAddresses env params w) = snd (GetAllAddresses env w)
   \<and> snd (handleWalletBackup env params w) =
       (case GetSeed env w of
          (Inl err, w') \<Rightarrow> w'
        | (Inr seed, w') \<Rightarrow> snd (GetAllAddresses env w'))
   \<and> fst (handleV2Request env
             \<lparr>Method = ''generate-ec-address'', Params = params, ID = i\<rparr> w)
       \<noteq> Inl InvalidParamsError
   \<and> fst (handleV2Request env
             \<lparr>Method = ''generate-factoid-address'', Params = params, ID = i\<rparr> w)
       \<noteq> Inl InvalidParamsError
   \<and> fst (handleV2Request env \<lparr>Method = ''all-addresses'', Params = params, ID = i\<rparr> w)
       \<noteq> Inl InvalidParamsError
   \<and> fst (handleV2Request env \<lparr>Method = ''wallet-backup'', Params = params, ID = i\<rparr> w)
       \<noteq> Inl InvalidParamsError"
proof -
  have a: "handleGenerateECAddress env params w = handleGenerateECAddress env JNull w"
    "handleGenerateFactoidAddress env params w = handleGenerateFactoidAddress env JNull w"
    "handleAllAddresses env params w = handleAllAddresses env JNull w"
    "handleWalletBackup env params w = handleWalletBackup env JNull w"
    by (simp_all add: handleGenerateECAddress_def handleGenerateFactoidAddress_def
          handleAllAddresses_def handleWalletBackup_def)
  have b: "fst (handleGenerateECAddress env params w) \<noteq> Inl InvalidParamsError"
    "snd (handleGenerateECAddress env params w) = snd (GenerateECAddress env w)"
    by (simp_all add: handleGenerateECAddress_def split: prod.splits sum.splits)
  have c: "fst (handleGenerateFactoidAddress env params w) \<noteq> Inl InvalidParamsError"
    "snd (handleGenerateFactoidAddress env params w) = snd (GenerateFCTAddress env w)"
    by (simp_all add: handleGenerateFactoidAddress_def split: prod.splits sum.splits)
  have d: "fst (handleAllAddresses env params w) \<noteq> Inl InvalidParamsError"
    "snd (handleAllAddresses env params w) = snd (GetAllAddresses env w)"
    by (simp_all add: handleAllAddresses_def split: prod.splits sum.splits)
  have e: "fst (handleWalletBackup env params w) \<noteq> Inl InvalidParamsError"
    "snd (handleWalletBackup env params w) =
       (case GetSeed env w of
          (Inl err, w') \<Rightarrow> w'
        | (Inr seed, w') \<Rightarrow> snd (GetAllAddresses env w'))"
    by (simp_all add: handleWalletBackup_def split: prod.splits sum.splits)
  have f: "fst (handleV2Request env
             \<lparr>Method = ''generate-ec-address'', Params = params, ID = i\<rparr> w)
       \<noteq> Inl InvalidParamsError"
    using b(1) by (auto simp add: handleV2Request_def split: prod.splits sum.splits)
  have g: "fst (handleV2Request env
             \<lparr>Method = ''generate-factoid-address'', Params = params, ID = i\<rparr> w)
       \<noteq> Inl InvalidParamsError"
    using c(1) by (auto simp add: handleV2Request_def split: prod.splits sum.splits)
  have h: "fst (handleV2Request env \<lparr>Method = ''all-addresses'', Params = params, ID = i\<rparr> w)
       \<noteq> Inl InvalidParamsError"
    using d(1) by (auto simp add: handleV2Request_def split: prod.splits sum.splits)
  have k: "fst (handleV2Request env \<lparr>Method = ''wallet-backup'', Params = params, ID = i\<rparr> w)
       \<noteq> Inl InvalidParamsError"
    using e(1) by (auto simp add: handleV2Request_def split: prod.splits sum.splits)
  show ?thesis using a b c d e f g h k by blast
qed

end
